theory Spec2Isabelle
  imports Main "HOL-Library.Word"
begin

unbundle bit_operations_syntax

section \<open>Status codes and constants declared outside the source file\<close>

text \<open>
  \<^verbatim>\<open>buckets/sectrans_buckets.c\<close> is the Secure Transport back end of serf's SSL buckets.
  The codes and flags it uses are declared in headers (\<^verbatim>\<open>apr_errno.h\<close>, \<^verbatim>\<open>serf.h\<close>,
  \<^verbatim>\<open>serf_private.h\<close>, \<^verbatim>\<open>Security/SecureTransport.h\<close>) that are not part of the file.

  Status codes are only ever compared for equality, so they are symbolic values here;
  \<open>APR_SUCCESS\<close> is the code 0 that \<^verbatim>\<open>!status\<close> tests for. \<open>APR_OTHER\<close> stands for
  any other non-zero code a bucket or an application callback may hand back.
\<close>

datatype apr_status =
    APR_SUCCESS
  | APR_EAGAIN
  | APR_EOF
  | APR_EGENERAL
  | APR_ENOTIMPL
  | SERF_ERROR_WAIT_CONN
  | SERF_ERROR_SSL_CERT_FAILED
  | SERF_ERROR_SSL_USER_DENIED_CERT
  | SERF_ERROR_SSL_KEYCHAIN_DENIED_CERT
  | SERF_ERROR_SSL_CANT_CONFIRM_CERT
  | APR_OTHER int

text \<open>
  Modelled from the spec: the macro \<^verbatim>\<open>SERF_BUCKET_READ_ERROR\<close> of \<^verbatim>\<open>serf.h\<close> is not
  in the source file. A read status is one of success, would-block, end of stream (and
  serf's wait-for-connection status), or else a fatal error.
\<close>

definition SERF_BUCKET_READ_ERROR :: "apr_status \<Rightarrow> bool" where
  "SERF_BUCKET_READ_ERROR status =
     (status \<noteq> APR_SUCCESS \<and> status \<noteq> APR_EOF \<and> status \<noteq> APR_EAGAIN
      \<and> status \<noteq> SERF_ERROR_WAIT_CONN)"

text \<open>
  The engine's \<^verbatim>\<open>OSStatus\<close>: the four codes the file names, and every other code
  (the read callback's \<^verbatim>\<open>-1\<close> is \<open>OSStatus_other (-1)\<close>).
\<close>

datatype OSStatus =
    noErr
  | errSSLWouldBlock
  | errSSLServerAuthCompleted
  | errSSLClientCertRequested
  | OSStatus_other int

datatype SecTrustResultType =
    kSecTrustResultInvalid
  | kSecTrustResultProceed
  | kSecTrustResultConfirm
  | kSecTrustResultDeny
  | kSecTrustResultUnspecified
  | kSecTrustResultRecoverableTrustFailure
  | kSecTrustResultFatalTrustFailure
  | kSecTrustResultOtherError
  | kSecTrustResult_unknown nat

text \<open>
  The certificate failure flags and the validation modes are bit masks combined with
  \<^verbatim>\<open>|\<close> and tested with \<^verbatim>\<open>&\<close>; their values are declared in \<^verbatim>\<open>serf.h\<close>, so
  they are parameters of the model.
\<close>

record serf_consts =
  SERF_SSL_CERT_ALL_OK :: int
  SERF_SSL_CERT_CONFIRM_NEEDED :: int
  SERF_SSL_CERT_RECOVERABLE :: int
  SERF_SSL_CERT_UNKNOWN_FAILURE :: int
  SERF_SSL_CERT_FATAL :: int
  serf_ssl_val_mode_serf_managed_with_gui :: int
  serf_ssl_val_mode_serf_managed_no_gui :: int
  serf_ssl_val_mode_application_managed :: int

section \<open>The session context\<close>

datatype sectrans_session_state =
    SERF_SECTRANS_INIT
  | SERF_SECTRANS_HANDSHAKE
  | SERF_SECTRANS_CONNECTED
  | SERF_SECTRANS_CLOSING

text \<open>
  \<^verbatim>\<open>sectrans_ssl_stream_t\<close>: \<open>'b\<close> is the state of a \<^verbatim>\<open>serf_bucket_t\<close>; the
  pointers of the C struct are replaced by the buckets they point to.
\<close>

record 'b sectrans_ssl_stream =
  pending :: 'b
  stream :: 'b

text \<open>
  \<^verbatim>\<open>sectrans_context_t\<close>: \<open>'e\<close> is the state behind the \<^verbatim>\<open>SSLContextRef\<close>. The
  server certificate callback is \<open>None\<close> for a null pointer; it is called with the
  failure flags (its user data and the certificate object are left out). The allocator
  and the host name play no part in what follows. \<^verbatim>\<open>refcount\<close> is a C \<^verbatim>\<open>int\<close>: a
  32-bit word, read as a signed number by \<open>sint\<close>, whose \<^verbatim>\<open>++\<close> and \<^verbatim>\<open>--\<close> wrap
  around.
\<close>

record ('e, 'b) sectrans_context =
  refcount :: "32 word"
  st_ctxr :: 'e
  encrypt :: "'b sectrans_ssl_stream"
  decrypt :: "'b sectrans_ssl_stream"
  state :: sectrans_session_state
  modes :: int
  server_cert_callback :: "(int \<Rightarrow> apr_status) option"

section \<open>The collaborators: bucket framework and Secure Transport\<close>

text \<open>
  The bucket framework and the TLS engine are outside the file. Their operations are
  parameters. An engine operation reaches the context only through the two I/O
  callbacks, which take the context \<^verbatim>\<open>const\<close>, read from \<^verbatim>\<open>decrypt.stream\<close> and
  append to \<^verbatim>\<open>encrypt.pending\<close>; so an engine operation maps the engine state and
  this pair of buckets \<open>(encrypt.pending, decrypt.stream)\<close> to new ones.

  \<open>uninitialized_status\<close> is the indeterminate content of the local \<^verbatim>\<open>status\<close> of
  \<^verbatim>\<open>validate_server_certificate\<close> before its first assignment.
\<close>

record ('e, 'b) collaborators =
  serf_bucket_read :: "'b \<Rightarrow> nat \<Rightarrow> apr_status \<times> string \<times> 'b"
  serf_bucket_aggregate_append :: "'b \<Rightarrow> string \<Rightarrow> 'b"
  serf__bucket_stream_create :: "(unit \<Rightarrow> 'b \<Rightarrow> apr_status) \<Rightarrow> unit \<Rightarrow> 'b"
  SSLNewContext :: "OSStatus \<times> 'e"
  SSLSetIOFuncs :: "'e \<Rightarrow> OSStatus \<times> 'e"
  SSLSetConnection :: "'e \<Rightarrow> OSStatus \<times> 'e"
  SSLSetSessionOption :: "'e \<Rightarrow> OSStatus \<times> 'e"
  SSLSetEnableCertVerify :: "'e \<Rightarrow> OSStatus \<times> 'e"
  SSLDisposeContext :: "'e \<Rightarrow> OSStatus"
  SSLHandshake :: "'e \<Rightarrow> 'b \<times> 'b \<Rightarrow> OSStatus \<times> 'e \<times> 'b \<times> 'b"
  SSLWrite :: "'e \<Rightarrow> string \<Rightarrow> 'b \<times> 'b \<Rightarrow> OSStatus \<times> 'e \<times> 'b \<times> 'b"
  SSLRead :: "'e \<Rightarrow> nat \<Rightarrow> 'b \<times> 'b \<Rightarrow> OSStatus \<times> string \<times> 'e \<times> 'b \<times> 'b"
  SSLCopyPeerCertificates :: "'e \<Rightarrow> OSStatus"
  SSLCopyPeerTrust :: "'e \<Rightarrow> OSStatus"
  SecTrustEvaluate :: "'e \<Rightarrow> OSStatus \<times> SecTrustResultType"
  runModalForTrust :: "'e \<Rightarrow> int"
  uninitialized_status :: apr_status

definition engine_io :: "('e, 'b) sectrans_context \<Rightarrow> 'b \<times> 'b" where
  "engine_io ctx = (pending (encrypt ctx), stream (decrypt ctx))"

definition engine_returned ::
  "('e, 'b) sectrans_context \<Rightarrow> 'e \<times> 'b \<times> 'b \<Rightarrow> ('e, 'b) sectrans_context" where
  "engine_returned ctx r =
     ctx\<lparr>st_ctxr := fst r,
         encrypt := (encrypt ctx)\<lparr>pending := fst (snd r)\<rparr>,
         decrypt := (decrypt ctx)\<lparr>stream := snd (snd r)\<rparr>\<rparr>"

section \<open>Status translation and the pending streams\<close>

fun translate_sectrans_status :: "OSStatus \<Rightarrow> apr_status" where
  "translate_sectrans_status noErr = APR_SUCCESS"
| "translate_sectrans_status errSSLWouldBlock = APR_EAGAIN"
| "translate_sectrans_status _ = APR_EGENERAL"

definition pending_stream_eof :: "'a \<Rightarrow> 'b \<Rightarrow> apr_status" where
  "pending_stream_eof baton pending_bucket = APR_EAGAIN"

section \<open>Context set-up and disposal\<close>

text \<open>
  \<^verbatim>\<open>sectrans_init_context\<close>: \<open>raw\<close> is the block \<^verbatim>\<open>serf_bucket_mem_alloc\<close> returns,
  whose fields hold whatever they held; the function assigns \<^verbatim>\<open>refcount\<close>,
  \<^verbatim>\<open>modes\<close>, the two pending streams, \<^verbatim>\<open>state\<close> and the engine handle, and
  returns \<^verbatim>\<open>NULL\<close> (\<open>None\<close>) as soon as one engine call fails.
\<close>

definition sectrans_init_context ::
  "serf_consts \<Rightarrow> ('e, 'b) collaborators \<Rightarrow> ('e, 'b) sectrans_context
   \<Rightarrow> ('e, 'b) sectrans_context option" where
  "sectrans_init_context K W raw =
     (let ssl_ctx = raw\<lparr>refcount := 0\<rparr>;
          ssl_ctx = ssl_ctx\<lparr>modes := serf_ssl_val_mode_serf_managed_no_gui K\<rparr>;
          ssl_ctx = ssl_ctx\<lparr>encrypt := (encrypt ssl_ctx)
                      \<lparr>pending := serf__bucket_stream_create W pending_stream_eof ()\<rparr>\<rparr>;
          ssl_ctx = ssl_ctx\<lparr>decrypt := (decrypt ssl_ctx)
                      \<lparr>pending := serf__bucket_stream_create W pending_stream_eof ()\<rparr>\<rparr>;
          ssl_ctx = ssl_ctx\<lparr>state := SERF_SECTRANS_INIT\<rparr>;
          r1 = SSLNewContext W
      in if fst r1 \<noteq> noErr then None
         else let r2 = SSLSetIOFuncs W (snd r1)
         in if fst r2 \<noteq> noErr then None
         else let r3 = SSLSetConnection W (snd r2)
         in if fst r3 \<noteq> noErr then None
         else let r4 = SSLSetSessionOption W (snd r3)
         in if fst r4 \<noteq> noErr then None
         else let r5 = SSLSetEnableCertVerify W (snd r4)
         in if fst r5 \<noteq> noErr then None
         else Some (ssl_ctx\<lparr>st_ctxr := snd r5\<rparr>))"

text \<open>
  What releasing a context does to the world outside the model: the call of
  \<^verbatim>\<open>SSLDisposeContext\<close> on an engine handle, and the call of
  \<^verbatim>\<open>serf_bucket_mem_free\<close> on the context's memory.
\<close>

datatype 'e release_effect = ENGINE_HANDLE_DISPOSED 'e | CONTEXT_MEMORY_FREED

text \<open>
  \<^verbatim>\<open>sectrans_free_context\<close> disposes the engine handle, then frees the context's memory
  whatever the engine answered; the value is the status it returns and the calls it
  made, in their order.
\<close>

definition sectrans_free_context ::
  "('e, 'b) collaborators \<Rightarrow> ('e, 'b) sectrans_context
   \<Rightarrow> apr_status \<times> 'e release_effect list" where
  "sectrans_free_context W ctx =
     (let status = SSLDisposeContext W (st_ctxr ctx);
          effects = [ENGINE_HANDLE_DISPOSED (st_ctxr ctx)];
          effects = effects @ [CONTEXT_MEMORY_FREED]
      in (if status \<noteq> noErr then APR_EGENERAL else APR_SUCCESS, effects))"

section \<open>The I/O callbacks of the engine\<close>

text \<open>
  \<^verbatim>\<open>sectrans_read_cb\<close>. The arguments of the loop are the source bucket, the local
  \<^verbatim>\<open>status\<close>, \<^verbatim>\<open>requested\<close> and the bytes copied so far (\<^verbatim>\<open>outbuf\<close> has advanced
  by their number, which is \<^verbatim>\<open>*dataLength\<close>). The loop need not end: a source that
  keeps answering success with no bytes keeps it running, and the value is \<open>None\<close>.
  A source that hands back more bytes than were asked for makes \<^verbatim>\<open>memcpy\<close> write past
  the requested length: that is the fault \<open>BUFFER_OVERRUN\<close>.
\<close>

datatype fault = BUFFER_OVERRUN

partial_function (option) sectrans_read_cb_loop ::
  "('e, 'b) collaborators \<Rightarrow> 'b \<Rightarrow> apr_status \<Rightarrow> nat \<Rightarrow> string
   \<Rightarrow> (fault + OSStatus \<times> string \<times> 'b) option" where
  "sectrans_read_cb_loop W src status requested copied =
     (if status = APR_SUCCESS \<and> requested \<noteq> 0 then
        (let r = serf_bucket_read W src requested;
             status' = fst r; buf = fst (snd r); src' = snd (snd r)
         in if SERF_BUCKET_READ_ERROR status' then
              Some (Inr (OSStatus_other (- 1), copied, src'))
            else if buf \<noteq> [] then
              (if requested < length buf then Some (Inl BUFFER_OVERRUN)
               else sectrans_read_cb_loop W src' status' (requested - length buf)
                      (copied @ buf))
            else sectrans_read_cb_loop W src' status' requested copied)
      else if status = APR_EAGAIN then Some (Inr (errSSLWouldBlock, copied, src))
      else if status = APR_SUCCESS then Some (Inr (noErr, copied, src))
      else Some (Inr (OSStatus_other (- 1), copied, src)))"

text \<open>
  The result is the engine status, the bytes copied into \<^verbatim>\<open>data\<close> (their number is
  the new \<^verbatim>\<open>*dataLength\<close>) and the context with the source bucket as the reads left it.
\<close>

definition sectrans_read_cb ::
  "('e, 'b) collaborators \<Rightarrow> ('e, 'b) sectrans_context \<Rightarrow> nat
   \<Rightarrow> (fault + OSStatus \<times> string \<times> ('e, 'b) sectrans_context) option" where
  "sectrans_read_cb W ssl_ctx requested =
     map_option
       (map_sum id (\<lambda>(st, copied, src).
          (st, copied, ssl_ctx\<lparr>decrypt := (decrypt ssl_ctx)\<lparr>stream := src\<rparr>\<rparr>)))
       (sectrans_read_cb_loop W (stream (decrypt ssl_ctx)) APR_SUCCESS requested [])"

definition sectrans_write_cb ::
  "('e, 'b) collaborators \<Rightarrow> ('e, 'b) sectrans_context \<Rightarrow> string
   \<Rightarrow> OSStatus \<times> ('e, 'b) sectrans_context" where
  "sectrans_write_cb W ctx data =
     (noErr, ctx\<lparr>encrypt := (encrypt ctx)
        \<lparr>pending := serf_bucket_aggregate_append W (pending (encrypt ctx)) data\<rparr>\<rparr>)"

section \<open>Server certificate validation and the handshake\<close>

definition ask_approval_gui ::
  "('e, 'b) collaborators \<Rightarrow> ('e, 'b) sectrans_context \<Rightarrow> apr_status" where
  "ask_approval_gui W ssl_ctx =
     (let result = runModalForTrust W (st_ctxr ssl_ctx)
      in if result \<noteq> 0 then APR_SUCCESS else SERF_ERROR_SSL_USER_DENIED_CERT)"

text \<open>
  The \<^verbatim>\<open>switch (result)\<close> of \<^verbatim>\<open>validate_server_certificate\<close>: the pair of
  \<^verbatim>\<open>failures\<close> and \<^verbatim>\<open>status\<close> after it. The confirm and recoverable cases leave
  \<^verbatim>\<open>status\<close> as it was.
\<close>

fun trust_result_switch ::
  "serf_consts \<Rightarrow> apr_status \<Rightarrow> SecTrustResultType \<Rightarrow> int \<times> apr_status" where
  "trust_result_switch K status kSecTrustResultUnspecified =
     (SERF_SSL_CERT_ALL_OK K, APR_SUCCESS)"
| "trust_result_switch K status kSecTrustResultProceed =
     (SERF_SSL_CERT_ALL_OK K, APR_SUCCESS)"
| "trust_result_switch K status kSecTrustResultConfirm =
     (SERF_SSL_CERT_CONFIRM_NEEDED K OR SERF_SSL_CERT_RECOVERABLE K, status)"
| "trust_result_switch K status kSecTrustResultRecoverableTrustFailure =
     (SERF_SSL_CERT_UNKNOWN_FAILURE K OR SERF_SSL_CERT_RECOVERABLE K, status)"
| "trust_result_switch K status kSecTrustResultInvalid =
     (SERF_SSL_CERT_FATAL K, SERF_ERROR_SSL_CERT_FAILED)"
| "trust_result_switch K status kSecTrustResultDeny =
     (SERF_SSL_CERT_FATAL K, SERF_ERROR_SSL_KEYCHAIN_DENIED_CERT)"
| "trust_result_switch K status kSecTrustResultFatalTrustFailure =
     (SERF_SSL_CERT_FATAL K, SERF_ERROR_SSL_CERT_FAILED)"
| "trust_result_switch K status kSecTrustResultOtherError =
     (SERF_SSL_CERT_FATAL K, SERF_ERROR_SSL_CERT_FAILED)"
| "trust_result_switch K status (kSecTrustResult_unknown n) =
     (SERF_SSL_CERT_FATAL K, SERF_ERROR_SSL_CERT_FAILED)"

text \<open>
  The rest of \<^verbatim>\<open>validate_server_certificate\<close>, from the comment "Recoverable errors?"
  on; every \<^verbatim>\<open>goto cleanup\<close> is the return of \<^verbatim>\<open>status\<close> as it then stands.
\<close>

definition validate_decision ::
  "serf_consts \<Rightarrow> ('e, 'b) collaborators \<Rightarrow> ('e, 'b) sectrans_context
   \<Rightarrow> int \<Rightarrow> apr_status \<Rightarrow> apr_status" where
  "validate_decision K W ssl_ctx failures status0 =
     (let confirm = (failures AND SERF_SSL_CERT_CONFIRM_NEEDED K \<noteq> 0
                     \<or> failures AND SERF_SSL_CERT_RECOVERABLE K \<noteq> 0)
      in if confirm \<and> modes ssl_ctx AND serf_ssl_val_mode_serf_managed_with_gui K \<noteq> 0
         then ask_approval_gui W ssl_ctx
         else
           (let status = (if confirm then SERF_ERROR_SSL_CANT_CONFIRM_CERT else status0)
            in if (failures AND SERF_SSL_CERT_ALL_OK K \<noteq> 0
                   \<or> failures AND SERF_SSL_CERT_FATAL K \<noteq> 0)
                  \<and> (modes ssl_ctx AND serf_ssl_val_mode_serf_managed_with_gui K \<noteq> 0
                     \<or> modes ssl_ctx AND serf_ssl_val_mode_serf_managed_no_gui K \<noteq> 0)
               then status
               else if modes ssl_ctx AND serf_ssl_val_mode_application_managed K \<noteq> 0
                       \<and> server_cert_callback ssl_ctx \<noteq> None \<and> failures \<noteq> 0
               then (case server_cert_callback ssl_ctx of
                       Some callback \<Rightarrow> callback failures
                     | None \<Rightarrow> SERF_ERROR_SSL_CERT_FAILED)
               else SERF_ERROR_SSL_CERT_FAILED))"

definition validate_server_certificate ::
  "serf_consts \<Rightarrow> ('e, 'b) collaborators \<Rightarrow> ('e, 'b) sectrans_context \<Rightarrow> apr_status" where
  "validate_server_certificate K W ssl_ctx =
     (let sectrans_status = SSLCopyPeerCertificates W (st_ctxr ssl_ctx)
      in if sectrans_status \<noteq> noErr then translate_sectrans_status sectrans_status
         else let sectrans_status = SSLCopyPeerTrust W (st_ctxr ssl_ctx)
         in if sectrans_status \<noteq> noErr then translate_sectrans_status sectrans_status
         else let ev = SecTrustEvaluate W (st_ctxr ssl_ctx)
         in if fst ev \<noteq> noErr then translate_sectrans_status (fst ev)
         else let fs = trust_result_switch K (uninitialized_status W) (snd ev)
         in validate_decision K W ssl_ctx (fst fs) (snd fs))"

text \<open>\<^verbatim>\<open>do_handshake\<close>: the status, and the context as the engine's callbacks left it.\<close>

definition do_handshake ::
  "serf_consts \<Rightarrow> ('e, 'b) collaborators \<Rightarrow> ('e, 'b) sectrans_context
   \<Rightarrow> apr_status \<times> ('e, 'b) sectrans_context" where
  "do_handshake K W ssl_ctx =
     (let r = SSLHandshake W (st_ctxr ssl_ctx) (engine_io ssl_ctx);
          sectrans_status = fst r;
          ssl_ctx = engine_returned ssl_ctx (snd r)
      in case sectrans_status of
           noErr \<Rightarrow> (APR_SUCCESS, ssl_ctx)
         | errSSLServerAuthCompleted \<Rightarrow>
             (let status = validate_server_certificate K W ssl_ctx
              in if status = APR_SUCCESS then (APR_EAGAIN, ssl_ctx) else (status, ssl_ctx))
         | errSSLClientCertRequested \<Rightarrow> (APR_ENOTIMPL, ssl_ctx)
         | _ \<Rightarrow> (translate_sectrans_status sectrans_status, ssl_ctx))"

section \<open>The SSL bucket API: creation and configuration\<close>

text \<open>
  \<^verbatim>\<open>decrypt_create\<close> and \<^verbatim>\<open>encrypt_create\<close>: \<open>impl_ctx\<close> is \<open>None\<close> for a null
  pointer, and then a new context is set up. When that fails the function dereferences
  the null pointer it got: the value \<open>None\<close>.
\<close>

definition decrypt_create ::
  "serf_consts \<Rightarrow> ('e, 'b) collaborators \<Rightarrow> ('e, 'b) sectrans_context \<Rightarrow> 'b
   \<Rightarrow> ('e, 'b) sectrans_context option \<Rightarrow> ('e, 'b) sectrans_context option" where
  "decrypt_create K W raw stream_bucket impl_ctx =
     (case (case impl_ctx of Some c \<Rightarrow> Some c | None \<Rightarrow> sectrans_init_context K W raw) of
        None \<Rightarrow> None
      | Some ssl_ctx \<Rightarrow>
          (let ssl_ctx = ssl_ctx\<lparr>refcount := refcount ssl_ctx + 1\<rparr>
           in Some (ssl_ctx\<lparr>decrypt := (decrypt ssl_ctx)\<lparr>stream := stream_bucket\<rparr>\<rparr>)))"

definition encrypt_create ::
  "serf_consts \<Rightarrow> ('e, 'b) collaborators \<Rightarrow> ('e, 'b) sectrans_context \<Rightarrow> 'b
   \<Rightarrow> ('e, 'b) sectrans_context option \<Rightarrow> ('e, 'b) sectrans_context option" where
  "encrypt_create K W raw stream_bucket impl_ctx =
     (case (case impl_ctx of Some c \<Rightarrow> Some c | None \<Rightarrow> sectrans_init_context K W raw) of
        None \<Rightarrow> None
      | Some ssl_ctx \<Rightarrow>
          (let ssl_ctx = ssl_ctx\<lparr>refcount := refcount ssl_ctx + 1\<rparr>
           in Some (ssl_ctx\<lparr>encrypt := (encrypt ssl_ctx)\<lparr>stream := stream_bucket\<rparr>\<rparr>)))"

definition client_cert_provider_set ::
  "('e, 'b) sectrans_context \<Rightarrow> 'c \<Rightarrow> 'd \<Rightarrow> 'p \<Rightarrow> ('e, 'b) sectrans_context" where
  "client_cert_provider_set impl_ctx callback data cache_pool = impl_ctx"

definition client_cert_password_set ::
  "serf_consts \<Rightarrow> ('e, 'b) sectrans_context \<Rightarrow> 'c \<Rightarrow> 'd \<Rightarrow> 'p
   \<Rightarrow> ('e, 'b) sectrans_context" where
  "client_cert_password_set K ssl_ctx callback data cache_pool =
     ssl_ctx\<lparr>modes := modes ssl_ctx OR serf_ssl_val_mode_application_managed K\<rparr>"

definition server_cert_callback_set ::
  "serf_consts \<Rightarrow> ('e, 'b) sectrans_context \<Rightarrow> (int \<Rightarrow> apr_status) option
   \<Rightarrow> ('e, 'b) sectrans_context" where
  "server_cert_callback_set K ssl_ctx callback =
     ssl_ctx\<lparr>modes := modes ssl_ctx OR serf_ssl_val_mode_application_managed K,
             server_cert_callback := callback\<rparr>"

definition set_allowed_cert_validation_modes ::
  "serf_consts \<Rightarrow> ('e, 'b) sectrans_context \<Rightarrow> int \<Rightarrow> int \<times> ('e, 'b) sectrans_context" where
  "set_allowed_cert_validation_modes K ssl_ctx m =
     (let m0 = (0 :: int);
          m1 = (if m AND serf_ssl_val_mode_serf_managed_with_gui K \<noteq> 0
                then m0 OR serf_ssl_val_mode_serf_managed_with_gui K else m0);
          m2 = (if m AND serf_ssl_val_mode_serf_managed_no_gui K \<noteq> 0
                then m1 OR serf_ssl_val_mode_serf_managed_no_gui K else m1);
          m3 = (if m AND serf_ssl_val_mode_application_managed K \<noteq> 0
                then m2 OR serf_ssl_val_mode_application_managed K else m2)
      in (m3, ssl_ctx\<lparr>modes := m3\<rparr>))"

section \<open>The encryption bucket\<close>

text \<open>
  A read returns its status, what it wrote to the out-parameters \<^verbatim>\<open>*data\<close> and
  \<^verbatim>\<open>*len\<close> (\<open>None\<close> when it returned before writing them) and the context.

  \<open>encrypt_read_connected\<close> is \<^verbatim>\<open>serf_sectrans_encrypt_read\<close> from the comment
  "Handshake successful." on.
\<close>

definition set_encrypt_pending ::
  "('e, 'b) sectrans_context \<Rightarrow> 'b \<Rightarrow> ('e, 'b) sectrans_context" where
  "set_encrypt_pending ctx b = ctx\<lparr>encrypt := (encrypt ctx)\<lparr>pending := b\<rparr>\<rparr>"

definition set_encrypt_stream ::
  "('e, 'b) sectrans_context \<Rightarrow> 'b \<Rightarrow> ('e, 'b) sectrans_context" where
  "set_encrypt_stream ctx b = ctx\<lparr>encrypt := (encrypt ctx)\<lparr>stream := b\<rparr>\<rparr>"

definition set_decrypt_pending ::
  "('e, 'b) sectrans_context \<Rightarrow> 'b \<Rightarrow> ('e, 'b) sectrans_context" where
  "set_decrypt_pending ctx b = ctx\<lparr>decrypt := (decrypt ctx)\<lparr>pending := b\<rparr>\<rparr>"

definition encrypt_read_connected ::
  "('e, 'b) collaborators \<Rightarrow> ('e, 'b) sectrans_context \<Rightarrow> nat
   \<Rightarrow> apr_status \<times> string option \<times> ('e, 'b) sectrans_context" where
  "encrypt_read_connected W ssl_ctx requested =
     (let r = serf_bucket_read W (pending (encrypt ssl_ctx)) requested;
          status = fst r; data = fst (snd r);
          ssl_ctx = set_encrypt_pending ssl_ctx (snd (snd r))
      in if SERF_BUCKET_READ_ERROR status then (status, Some data, ssl_ctx)
         else if data \<noteq> [] then (APR_SUCCESS, Some data, ssl_ctx)
         else
           (let u = serf_bucket_read W (stream (encrypt ssl_ctx)) requested;
                status_unenc_stream = fst u; unenc_data = fst (snd u);
                ssl_ctx = set_encrypt_stream ssl_ctx (snd (snd u))
            in if SERF_BUCKET_READ_ERROR status_unenc_stream
               then (status_unenc_stream, Some data, ssl_ctx)
               else if unenc_data \<noteq> [] then
                 (let w = SSLWrite W (st_ctxr ssl_ctx) unenc_data (engine_io ssl_ctx);
                      ssl_ctx = engine_returned ssl_ctx (snd w);
                      status = translate_sectrans_status (fst w)
                  in if SERF_BUCKET_READ_ERROR status then (status, Some data, ssl_ctx)
                     else
                       (let r2 = serf_bucket_read W (pending (encrypt ssl_ctx)) requested;
                            status = fst r2; data2 = fst (snd r2);
                            ssl_ctx = set_encrypt_pending ssl_ctx (snd (snd r2))
                        in if SERF_BUCKET_READ_ERROR status then (status, Some data2, ssl_ctx)
                           else if status = APR_SUCCESS then (status, Some data2, ssl_ctx)
                           else (status_unenc_stream, Some data2, ssl_ctx)))
               else (status_unenc_stream, Some data, ssl_ctx)))"

definition serf_sectrans_encrypt_read ::
  "serf_consts \<Rightarrow> ('e, 'b) collaborators \<Rightarrow> ('e, 'b) sectrans_context \<Rightarrow> nat
   \<Rightarrow> apr_status \<times> string option \<times> ('e, 'b) sectrans_context" where
  "serf_sectrans_encrypt_read K W ssl_ctx requested =
     (if state ssl_ctx = SERF_SECTRANS_INIT \<or> state ssl_ctx = SERF_SECTRANS_HANDSHAKE then
        (let ssl_ctx = ssl_ctx\<lparr>state := SERF_SECTRANS_HANDSHAKE\<rparr>;
             h = do_handshake K W ssl_ctx;
             status = fst h; ssl_ctx = snd h
         in if SERF_BUCKET_READ_ERROR status then (status, None, ssl_ctx)
            else if status = APR_SUCCESS then
              encrypt_read_connected W (ssl_ctx\<lparr>state := SERF_SECTRANS_CONNECTED\<rparr>) requested
            else
              (let r = serf_bucket_read W (pending (encrypt ssl_ctx)) requested
               in (fst r, Some (fst (snd r)), set_encrypt_pending ssl_ctx (snd (snd r)))))
      else encrypt_read_connected W ssl_ctx requested)"

text \<open>
  The destructors return the context that is left (\<open>None\<close> once its memory is freed)
  and the calls that released it; the status of \<^verbatim>\<open>sectrans_free_context\<close> is
  dropped, as in the code. Freeing the bucket itself belongs to the framework.
\<close>

definition serf_sectrans_encrypt_destroy_and_data ::
  "('e, 'b) collaborators \<Rightarrow> ('e, 'b) sectrans_context
   \<Rightarrow> ('e, 'b) sectrans_context option \<times> 'e release_effect list" where
  "serf_sectrans_encrypt_destroy_and_data W ssl_ctx =
     (let ssl_ctx = ssl_ctx\<lparr>refcount := refcount ssl_ctx - 1\<rparr>
      in if refcount ssl_ctx = 0 then (None, snd (sectrans_free_context W ssl_ctx))
         else (Some ssl_ctx, []))"

section \<open>The decryption bucket\<close>

definition SECURE_TRANSPORT_READ_BUFSIZE :: nat where
  "SECURE_TRANSPORT_READ_BUFSIZE = 8000"

definition decrypt_more_data ::
  "('e, 'b) collaborators \<Rightarrow> ('e, 'b) sectrans_context
   \<Rightarrow> apr_status \<times> ('e, 'b) sectrans_context" where
  "decrypt_more_data W ssl_ctx =
     (let r = SSLRead W (st_ctxr ssl_ctx) SECURE_TRANSPORT_READ_BUFSIZE (engine_io ssl_ctx);
          dec_data = fst (snd r);
          ssl_ctx = engine_returned ssl_ctx (snd (snd r));
          status = translate_sectrans_status (fst r)
      in if SERF_BUCKET_READ_ERROR status then (status, ssl_ctx)
         else (status, set_decrypt_pending ssl_ctx
                 (serf_bucket_aggregate_append W (pending (decrypt ssl_ctx)) dec_data)))"

text \<open>
  The \<^verbatim>\<open>do ... while (status == APR_SUCCESS)\<close> loop of the decrypt read: the status
  that ended it and the context. An engine that never stops answering success keeps it
  running: the value \<open>None\<close>.
\<close>

partial_function (option) decrypt_loop ::
  "('e, 'b) collaborators \<Rightarrow> ('e, 'b) sectrans_context
   \<Rightarrow> (apr_status \<times> ('e, 'b) sectrans_context) option" where
  "decrypt_loop W ssl_ctx =
     (let r = decrypt_more_data W ssl_ctx
      in if SERF_BUCKET_READ_ERROR (fst r) then Some r
         else if fst r = APR_SUCCESS then decrypt_loop W (snd r)
         else Some r)"

definition serf_sectrans_decrypt_read ::
  "('e, 'b) collaborators \<Rightarrow> ('e, 'b) sectrans_context \<Rightarrow> nat
   \<Rightarrow> (apr_status \<times> string option \<times> ('e, 'b) sectrans_context) option" where
  "serf_sectrans_decrypt_read W ssl_ctx requested =
     (let r = serf_bucket_read W (pending (decrypt ssl_ctx)) requested;
          status = fst r; data = fst (snd r);
          ssl_ctx = set_decrypt_pending ssl_ctx (snd (snd r))
      in if SERF_BUCKET_READ_ERROR status then Some (status, Some data, ssl_ctx)
         else if data \<noteq> [] then Some (status, Some data, ssl_ctx)
         else
           (case decrypt_loop W ssl_ctx of
              None \<Rightarrow> None
            | Some l \<Rightarrow>
                if SERF_BUCKET_READ_ERROR (fst l) then Some (fst l, Some data, snd l)
                else
                  (let r2 = serf_bucket_read W (pending (decrypt (snd l))) requested
                   in Some (fst r2, Some (fst (snd r2)),
                            set_decrypt_pending (snd l) (snd (snd r2))))))"

definition serf_sectrans_decrypt_destroy_and_data ::
  "('e, 'b) collaborators \<Rightarrow> ('e, 'b) sectrans_context
   \<Rightarrow> ('e, 'b) sectrans_context option \<times> 'e release_effect list" where
  "serf_sectrans_decrypt_destroy_and_data W ssl_ctx =
     (let ssl_ctx = ssl_ctx\<lparr>refcount := refcount ssl_ctx - 1\<rparr>
      in if refcount ssl_ctx = 0 then (None, snd (sectrans_free_context W ssl_ctx))
         else (Some ssl_ctx, []))"

section \<open>A concrete bucket and a scripted engine\<close>

text \<open>
  Concrete collaborators to run the model on. A bucket is the list of the chunks
  queued in it: a read hands out the first chunk, or its first \<open>requested\<close> bytes,
  with success while something is left behind and would-block otherwise; an empty
  bucket answers would-block with no bytes, as a stream bucket held open by
  \<open>pending_stream_eof\<close> does.
\<close>

fun chunk_read :: "string list \<Rightarrow> nat \<Rightarrow> apr_status \<times> string \<times> string list" where
  "chunk_read [] requested = (APR_EAGAIN, [], [])"
| "chunk_read (c # cs) requested =
     (if length c \<le> requested
      then (if cs = [] then APR_EAGAIN else APR_SUCCESS, c, cs)
      else (APR_SUCCESS, take requested c, drop requested c # cs))"

definition chunk_append :: "string list \<Rightarrow> string \<Rightarrow> string list" where
  "chunk_append b data = b @ [data]"

text \<open>
  The scripted engine answers each handshake step and each read with the next entry of
  its script (a status and the bytes it produces: handshake bytes go to the pending
  ciphertext bucket through the write callback), and evaluates the peer's trust to a
  fixed result. Writing frames the plaintext with a one-byte header.
\<close>

record scripted_engine =
  handshake_script :: "(OSStatus \<times> string) list"
  read_script :: "(OSStatus \<times> string) list"
  trust_result :: SecTrustResultType

definition scripted_handshake ::
  "scripted_engine \<Rightarrow> string list \<times> string list
   \<Rightarrow> OSStatus \<times> scripted_engine \<times> string list \<times> string list" where
  "scripted_handshake e io =
     (case handshake_script e of
        [] \<Rightarrow> (noErr, e, io)
      | (st, out) # rest \<Rightarrow>
          (st, e\<lparr>handshake_script := rest\<rparr>,
           if out = [] then fst io else chunk_append (fst io) out, snd io))"

definition scripted_read ::
  "scripted_engine \<Rightarrow> nat \<Rightarrow> string list \<times> string list
   \<Rightarrow> OSStatus \<times> string \<times> scripted_engine \<times> string list \<times> string list" where
  "scripted_read e n io =
     (case read_script e of
        [] \<Rightarrow> (errSSLWouldBlock, [], e, io)
      | (st, out) # rest \<Rightarrow> (st, out, e\<lparr>read_script := rest\<rparr>, io))"

definition scripted_write ::
  "scripted_engine \<Rightarrow> string \<Rightarrow> string list \<times> string list
   \<Rightarrow> OSStatus \<times> scripted_engine \<times> string list \<times> string list" where
  "scripted_write e data io = (noErr, e, chunk_append (fst io) (CHR ''#'' # data), snd io)"

definition scripted_world :: "(scripted_engine, string list) collaborators" where
  "scripted_world =
     \<lparr>serf_bucket_read = chunk_read,
      serf_bucket_aggregate_append = chunk_append,
      serf__bucket_stream_create = (\<lambda>hold_open baton. []),
      SSLNewContext =
        (noErr, \<lparr>handshake_script = [], read_script = [],
                 trust_result = kSecTrustResultProceed\<rparr>),
      SSLSetIOFuncs = (\<lambda>e. (noErr, e)),
      SSLSetConnection = (\<lambda>e. (noErr, e)),
      SSLSetSessionOption = (\<lambda>e. (noErr, e)),
      SSLSetEnableCertVerify = (\<lambda>e. (noErr, e)),
      SSLDisposeContext = (\<lambda>e. noErr),
      SSLHandshake = scripted_handshake,
      SSLWrite = scripted_write,
      SSLRead = scripted_read,
      SSLCopyPeerCertificates = (\<lambda>e. noErr),
      SSLCopyPeerTrust = (\<lambda>e. noErr),
      SecTrustEvaluate = (\<lambda>e. (noErr, trust_result e)),
      runModalForTrust = (\<lambda>e. 0),
      uninitialized_status = APR_OTHER 12345\<rparr>"

text \<open>One assignment of distinct bits to the flags and modes.\<close>

definition example_consts :: serf_consts where
  "example_consts =
     \<lparr>SERF_SSL_CERT_ALL_OK = 256,
      SERF_SSL_CERT_CONFIRM_NEEDED = 512,
      SERF_SSL_CERT_RECOVERABLE = 1024,
      SERF_SSL_CERT_UNKNOWN_FAILURE = 16,
      SERF_SSL_CERT_FATAL = 2048,
      serf_ssl_val_mode_serf_managed_with_gui = 1,
      serf_ssl_val_mode_serf_managed_no_gui = 2,
      serf_ssl_val_mode_application_managed = 4\<rparr>"

text \<open>A context on the concrete collaborators, with empty buckets.\<close>

definition example_context ::
  "scripted_engine \<Rightarrow> sectrans_session_state \<Rightarrow> (scripted_engine, string list) sectrans_context"
  where
  "example_context e s =
     \<lparr>refcount = 2, st_ctxr = e,
      encrypt = \<lparr>pending = [], stream = []\<rparr>,
      decrypt = \<lparr>pending = [], stream = []\<rparr>,
      state = s,
      modes = serf_ssl_val_mode_serf_managed_no_gui example_consts,
      server_cert_callback = None\<rparr>"

text \<open>An engine with nothing left to do.\<close>

definition idle_engine :: scripted_engine where
  "idle_engine =
     \<lparr>handshake_script = [], read_script = [], trust_result = kSecTrustResultProceed\<rparr>"

text \<open>An engine whose next handshake step stops for the server certificate.\<close>

definition auth_engine :: "SecTrustResultType \<Rightarrow> scripted_engine" where
  "auth_engine t =
     \<lparr>handshake_script = [(errSSLServerAuthCompleted, [])], read_script = [],
      trust_result = t\<rparr>"


text \<open>An engine with two records to read: one complete, one cut short by would-block.\<close>

definition reading_engine :: scripted_engine where
  "reading_engine =
     \<lparr>handshake_script = [],
      read_script = [(noErr, ''abc''), (errSSLWouldBlock, ''de'')],
      trust_result = kSecTrustResultProceed\<rparr>"



section \<open>Notions used in the statements\<close>



text \<open>The context after one call of \<open>decrypt_more_data\<close>.\<close>

definition decrypt_step ::
  "('e, 'b) collaborators \<Rightarrow> ('e, 'b) sectrans_context \<Rightarrow> ('e, 'b) sectrans_context" where
  "decrypt_step W c = snd (decrypt_more_data W c)"

text \<open>
  \<open>source_answers W src n as src'\<close>: read after read, each asking for the bytes still
  missing of \<open>n\<close>, the bucket \<open>src\<close> gives the statuses and chunks listed in \<open>as\<close> and
  is left as \<open>src'\<close>.
\<close>

fun source_answers ::
  "('e, 'b) collaborators \<Rightarrow> 'b \<Rightarrow> nat \<Rightarrow> (apr_status \<times> string) list \<Rightarrow> 'b \<Rightarrow> bool" where
  "source_answers W src n [] src' = (src' = src)"
| "source_answers W src n (a # as) src' =
     (fst (serf_bucket_read W src n) = fst a
      \<and> fst (snd (serf_bucket_read W src n)) = snd a
      \<and> source_answers W (snd (snd (serf_bucket_read W src n))) (n - length (snd a)) as src')"

text \<open>
  \<open>script_ok W src n src' bufs st buf\<close>: a run of reads that takes a call for \<open>n\<close>
  bytes to its end. The source answers success with the chunks \<open>bufs\<close>, fewer than
  \<open>n\<close> bytes in all, then \<open>st\<close> with the chunk \<open>buf\<close>; the last answer is not
  success or completes the \<open>n\<close> bytes, and unless it is a read error no more than \<open>n\<close>
  bytes have been handed out.
\<close>

definition script_ok ::
  "('e, 'b) collaborators \<Rightarrow> 'b \<Rightarrow> nat \<Rightarrow> 'b \<Rightarrow> string list \<Rightarrow> apr_status \<Rightarrow> string \<Rightarrow> bool" where
  "script_ok W src n src' bufs st buf =
     (source_answers W src n (map (Pair APR_SUCCESS) bufs @ [(st, buf)]) src'
      \<and> length (concat bufs) < n
      \<and> (st \<noteq> APR_SUCCESS \<or> length (concat bufs) + length buf = n)
      \<and> (\<not> SERF_BUCKET_READ_ERROR st \<longrightarrow> length (concat bufs) + length buf \<le> n))"

text \<open>What the read callback returns for the status that ended its loop.\<close>

definition read_cb_status :: "apr_status \<Rightarrow> OSStatus" where
  "read_cb_status st =
     (if SERF_BUCKET_READ_ERROR st then OSStatus_other (- 1)
      else if st = APR_EAGAIN then errSSLWouldBlock
      else if st = APR_SUCCESS then noErr
      else OSStatus_other (- 1))"

section \<open>Evaluating the concrete collaborators\<close>

lemmas scripted_defs =
  scripted_world_def scripted_handshake_def scripted_read_def scripted_write_def
  example_context_def example_consts_def auth_engine_def idle_engine_def
  engine_io_def engine_returned_def chunk_append_def
  set_encrypt_pending_def set_encrypt_stream_def set_decrypt_pending_def

section \<open>The pending streams stay open\<close>

lemma sectrans_init_context_fields:
  assumes "sectrans_init_context K W raw = Some c"
  shows "refcount c = 0"
    and "state c = SERF_SECTRANS_INIT"
    and "modes c = serf_ssl_val_mode_serf_managed_no_gui K"
    and "pending (encrypt c) = serf__bucket_stream_create W pending_stream_eof ()"
    and "pending (decrypt c) = serf__bucket_stream_create W pending_stream_eof ()"
  using assms by (auto simp: sectrans_init_context_def Let_def split: if_splits)

lemma sectrans_init_context_example:
  "sectrans_init_context example_consts scripted_world (example_context e s) =
     Some ((example_context idle_engine SERF_SECTRANS_INIT)\<lparr>refcount := 0\<rparr>)"
  by (simp add: sectrans_init_context_def scripted_world_def example_context_def
      example_consts_def idle_engine_def Let_def)

text \<open>
  Claim C8. The end-of-stream callback of the pending streams answers would-block
  (\<open>APR_EAGAIN\<close>) for every baton and every state of the bucket, so never end of
  stream (\<open>APR_EOF\<close>); and both pending streams of a context that
  \<open>sectrans_init_context\<close> sets up, the encrypt and the decrypt one, are stream buckets
  created with this callback.
\<close>

theorem C8_pending_stream_never_eof:
  "pending_stream_eof baton b = APR_EAGAIN
   \<and> pending_stream_eof baton b \<noteq> APR_EOF
   \<and> (sectrans_init_context K W raw = Some c \<longrightarrow>
        pending (encrypt c) = serf__bucket_stream_create W pending_stream_eof ()
      \<and> pending (decrypt c) = serf__bucket_stream_create W pending_stream_eof ())"
  using sectrans_init_context_fields(4,5)[of K W raw c]
  by (simp add: pending_stream_eof_def)

theorem C8_pending_stream_never_eof_witness:
  "sectrans_init_context example_consts scripted_world
       (example_context idle_engine SERF_SECTRANS_CLOSING)
     = Some ((example_context idle_engine SERF_SECTRANS_INIT)\<lparr>refcount := 0\<rparr>)
   \<and> pending_stream_eof () [''queued''] = APR_EAGAIN
   \<and> pending (encrypt ((example_context idle_engine SERF_SECTRANS_INIT)\<lparr>refcount := 0\<rparr>))
       = serf__bucket_stream_create scripted_world pending_stream_eof ()
   \<and> pending (decrypt ((example_context idle_engine SERF_SECTRANS_INIT)\<lparr>refcount := 0\<rparr>))
       = serf__bucket_stream_create scripted_world pending_stream_eof ()"
proof -
  have h: "sectrans_init_context example_consts scripted_world
       (example_context idle_engine SERF_SECTRANS_CLOSING)
     = Some ((example_context idle_engine SERF_SECTRANS_INIT)\<lparr>refcount := 0\<rparr>)"
    by (rule sectrans_init_context_example)
  from C8_pending_stream_never_eof
    [of "()" "[''queued'']" example_consts scripted_world
      "example_context idle_engine SERF_SECTRANS_CLOSING"
      "(example_context idle_engine SERF_SECTRANS_INIT)\<lparr>refcount := 0\<rparr>"] h
  show ?thesis by simp
qed

section \<open>Registering client certificate callbacks\<close>

lemma int_or_and_right: "(a OR b) AND b = (b :: int)"
  by (rule bit_eqI) (auto simp add: bit_and_iff bit_or_iff)

lemma int_or_and_left: "(a OR b) AND a = (a :: int)"
  by (rule bit_eqI) (auto simp add: bit_and_iff bit_or_iff)

text \<open>
  Claim C10. Registering a client certificate password callback sets the
  application-managed bit of the validation modes and keeps every bit that was set;
  nothing else of the context changes, and the result does not depend on the callback,
  its data or the pool, so none of them is stored. Registering a client certificate
  provider leaves the context as it is.
\<close>

theorem C10_client_cert_password_set_modes:
  "modes (client_cert_password_set K ctx cb d p)
     = modes ctx OR serf_ssl_val_mode_application_managed K
   \<and> modes (client_cert_password_set K ctx cb d p)
       AND serf_ssl_val_mode_application_managed K
     = serf_ssl_val_mode_application_managed K
   \<and> modes (client_cert_password_set K ctx cb d p) AND modes ctx = modes ctx
   \<and> client_cert_password_set K ctx cb d p
     = ctx\<lparr>modes := modes (client_cert_password_set K ctx cb d p)\<rparr>
   \<and> client_cert_password_set K ctx cb d p = client_cert_password_set K ctx cb' d' p'
   \<and> client_cert_provider_set ctx cb d p = ctx"
  by (simp add: client_cert_password_set_def client_cert_provider_set_def
      int_or_and_right int_or_and_left)

theorem C10_client_cert_password_set_modes_witness:
  "modes (client_cert_password_set example_consts
            (example_context idle_engine SERF_SECTRANS_INIT) ''cb'' ''data'' ()) = 6
   \<and> server_cert_callback (client_cert_password_set example_consts
            (example_context idle_engine SERF_SECTRANS_INIT) ''cb'' ''data'' ()) = None
   \<and> client_cert_provider_set (example_context idle_engine SERF_SECTRANS_INIT)
        ''cb'' ''data'' () = example_context idle_engine SERF_SECTRANS_INIT"
  using C10_client_cert_password_set_modes
    [of example_consts "example_context idle_engine SERF_SECTRANS_INIT"
      "''cb''" "''data''" "()" "''cb''" "''data''" "()"]
  by (simp add: example_context_def example_consts_def client_cert_password_set_def
      client_cert_provider_set_def)

section \<open>Reads on the encryption bucket\<close>

text \<open>
  Claim C1. The validation modes are exactly adapter-managed without GUI, no
  application callback is registered, the state is INIT or HANDSHAKE, the engine's
  handshake step stops for the server certificate and its trust evaluation gives
  "confirm". The claim says that the read then returns
  \<open>SERF_ERROR_SSL_CANT_CONFIRM_CERT\<close>. With mode and flag bits that do not overlap, the
  code returns the generic \<open>SERF_ERROR_SSL_CERT_FAILED\<close> instead:
  \<open>validate_server_certificate\<close> assigns the specific error and goes on to its last
  \<^verbatim>\<open>else\<close>, which overwrites it. The state stays HANDSHAKE, as the claim says.
\<close>

theorem C1_cant_confirm_is_overwritten:
  assumes st: "state ctx = SERF_SECTRANS_INIT \<or> state ctx = SERF_SECTRANS_HANDSHAKE"
    and md: "modes ctx = serf_ssl_val_mode_serf_managed_no_gui K"
    and cb: "server_cert_callback ctx = None"
    and hs: "SSLHandshake W (st_ctxr ctx) (engine_io ctx) = (errSSLServerAuthCompleted, e', io')"
    and certs: "SSLCopyPeerCertificates W e' = noErr"
    and trust: "SSLCopyPeerTrust W e' = noErr"
    and ev: "SecTrustEvaluate W e' = (noErr, kSecTrustResultConfirm)"
    and K1: "serf_ssl_val_mode_serf_managed_no_gui K
               AND serf_ssl_val_mode_serf_managed_with_gui K = 0"
    and K2: "(SERF_SSL_CERT_CONFIRM_NEEDED K OR SERF_SSL_CERT_RECOVERABLE K)
               AND SERF_SSL_CERT_ALL_OK K = 0"
    and K3: "(SERF_SSL_CERT_CONFIRM_NEEDED K OR SERF_SSL_CERT_RECOVERABLE K)
               AND SERF_SSL_CERT_FATAL K = 0"
  shows "serf_sectrans_encrypt_read K W ctx requested
           = (SERF_ERROR_SSL_CERT_FAILED, None,
              engine_returned (ctx\<lparr>state := SERF_SECTRANS_HANDSHAKE\<rparr>) (e', io'))
       \<and> fst (serf_sectrans_encrypt_read K W ctx requested)
           \<noteq> SERF_ERROR_SSL_CANT_CONFIRM_CERT
       \<and> state (snd (snd (serf_sectrans_encrypt_read K W ctx requested)))
           = SERF_SECTRANS_HANDSHAKE"
proof -
  let ?c1 = "engine_returned (ctx\<lparr>state := SERF_SECTRANS_HANDSHAKE\<rparr>) (e', io')"
  have v: "validate_server_certificate K W ?c1 = SERF_ERROR_SSL_CERT_FAILED"
    using md cb certs trust ev K1 K2 K3
    by (simp add: validate_server_certificate_def validate_decision_def
        engine_returned_def Let_def)
  have h: "do_handshake K W (ctx\<lparr>state := SERF_SECTRANS_HANDSHAKE\<rparr>)
             = (SERF_ERROR_SSL_CERT_FAILED, ?c1)"
    using hs v by (simp add: do_handshake_def Let_def engine_io_def)
  show ?thesis using st h
    by (auto simp add: serf_sectrans_encrypt_read_def Let_def SERF_BUCKET_READ_ERROR_def
        engine_returned_def)
qed

theorem C1_cant_confirm_is_overwritten_witness:
  "serf_sectrans_encrypt_read example_consts scripted_world
       (example_context (auth_engine kSecTrustResultConfirm) SERF_SECTRANS_INIT) 100
     = (SERF_ERROR_SSL_CERT_FAILED, None,
        example_context ((auth_engine kSecTrustResultConfirm)\<lparr>handshake_script := []\<rparr>)
          SERF_SECTRANS_HANDSHAKE)"
proof -
  let ?e = "(auth_engine kSecTrustResultConfirm)\<lparr>handshake_script := []\<rparr>"
  let ?c = "example_context (auth_engine kSecTrustResultConfirm) SERF_SECTRANS_INIT"
  have st: "state ?c = SERF_SECTRANS_INIT \<or> state ?c = SERF_SECTRANS_HANDSHAKE"
    by (simp add: scripted_defs)
  have md: "modes ?c = serf_ssl_val_mode_serf_managed_no_gui example_consts"
    by (simp add: scripted_defs)
  have cb: "server_cert_callback ?c = None"
    by (simp add: scripted_defs)
  have hs: "SSLHandshake scripted_world (st_ctxr ?c) (engine_io ?c)
              = (errSSLServerAuthCompleted, ?e, ([], []))"
    by (simp add: scripted_defs)
  have certs: "SSLCopyPeerCertificates scripted_world ?e = noErr"
    by (simp add: scripted_defs)
  have trust: "SSLCopyPeerTrust scripted_world ?e = noErr"
    by (simp add: scripted_defs)
  have ev: "SecTrustEvaluate scripted_world ?e = (noErr, kSecTrustResultConfirm)"
    by (simp add: scripted_defs)
  have K1: "serf_ssl_val_mode_serf_managed_no_gui example_consts
              AND serf_ssl_val_mode_serf_managed_with_gui example_consts = 0"
    by (simp add: example_consts_def)
  have K2: "(SERF_SSL_CERT_CONFIRM_NEEDED example_consts
              OR SERF_SSL_CERT_RECOVERABLE example_consts)
              AND SERF_SSL_CERT_ALL_OK example_consts = 0"
    by (simp add: example_consts_def)
  have K3: "(SERF_SSL_CERT_CONFIRM_NEEDED example_consts
              OR SERF_SSL_CERT_RECOVERABLE example_consts)
              AND SERF_SSL_CERT_FATAL example_consts = 0"
    by (simp add: example_consts_def)
  show ?thesis
    using C1_cant_confirm_is_overwritten[OF st md cb hs certs trust ev K1 K2 K3, of 100]
    by (simp add: scripted_defs)
qed

text \<open>
  Claim C5. In the CONNECTED state, when the read of the pending ciphertext bucket
  hands out at least one byte, whether with success or with would-block, the read of
  the encryption bucket returns those bytes with \<open>APR_SUCCESS\<close>; only the pending bucket
  has changed.
\<close>

theorem C5_encrypt_read_serves_pending:
  assumes "state ctx = SERF_SECTRANS_CONNECTED"
    and "serf_bucket_read W (pending (encrypt ctx)) requested = (st, data, p')"
    and "data \<noteq> []"
    and "st = APR_SUCCESS \<or> st = APR_EAGAIN"
  shows "serf_sectrans_encrypt_read K W ctx requested
           = (APR_SUCCESS, Some data, set_encrypt_pending ctx p')"
  using assms
  by (auto simp add: serf_sectrans_encrypt_read_def encrypt_read_connected_def Let_def
      SERF_BUCKET_READ_ERROR_def)

theorem C5_encrypt_read_serves_pending_witness:
  "serf_sectrans_encrypt_read example_consts scripted_world
       (set_encrypt_pending (example_context idle_engine SERF_SECTRANS_CONNECTED)
          [''cipher'']) 100
     = (APR_SUCCESS, Some ''cipher'', example_context idle_engine SERF_SECTRANS_CONNECTED)
   \<and> fst (serf_bucket_read scripted_world [''cipher''] 100) = APR_EAGAIN"
proof -
  let ?c = "set_encrypt_pending (example_context idle_engine SERF_SECTRANS_CONNECTED)
              [''cipher'']"
  have a: "state ?c = SERF_SECTRANS_CONNECTED"
    by (simp add: scripted_defs)
  have b: "serf_bucket_read scripted_world (pending (encrypt ?c)) 100
             = (APR_EAGAIN, ''cipher'', [])"
    by (simp add: scripted_defs)
  have c: "''cipher'' \<noteq> []" by simp
  have d: "APR_EAGAIN = APR_SUCCESS \<or> APR_EAGAIN = APR_EAGAIN" by simp
  show ?thesis
    using C5_encrypt_read_serves_pending[OF a b c d, of example_consts]
    by (simp add: scripted_defs)
qed

text \<open>
  Claim C6. In the CONNECTED state, when the pending ciphertext bucket hands out no
  bytes (without a read error) and the plaintext source answers would-block with no
  bytes, the read returns would-block with no bytes. The engine is not called: its
  state, the decrypt side and the session state are as before, only the two buckets
  that were read have changed, and the result is the same whatever the engine's
  write, handshake and read operations are.
\<close>

theorem C6_encrypt_read_would_block:
  assumes "state ctx = SERF_SECTRANS_CONNECTED"
    and "serf_bucket_read W (pending (encrypt ctx)) requested = (st, [], p')"
    and "\<not> SERF_BUCKET_READ_ERROR st"
    and "serf_bucket_read W (stream (encrypt ctx)) requested = (APR_EAGAIN, [], s')"
  shows "serf_sectrans_encrypt_read K W ctx requested
           = (APR_EAGAIN, Some [], set_encrypt_stream (set_encrypt_pending ctx p') s')
       \<and> serf_sectrans_encrypt_read K (W\<lparr>SSLWrite := w, SSLHandshake := h, SSLRead := r\<rparr>)
             ctx requested
           = serf_sectrans_encrypt_read K W ctx requested
       \<and> st_ctxr (snd (snd (serf_sectrans_encrypt_read K W ctx requested))) = st_ctxr ctx
       \<and> state (snd (snd (serf_sectrans_encrypt_read K W ctx requested)))
           = SERF_SECTRANS_CONNECTED
       \<and> decrypt (snd (snd (serf_sectrans_encrypt_read K W ctx requested))) = decrypt ctx"
  using assms
  by (auto simp add: serf_sectrans_encrypt_read_def encrypt_read_connected_def Let_def
      set_encrypt_stream_def set_encrypt_pending_def)

theorem C6_encrypt_read_would_block_witness:
  "serf_sectrans_encrypt_read example_consts scripted_world
       (example_context idle_engine SERF_SECTRANS_CONNECTED) 100
     = (APR_EAGAIN, Some [], example_context idle_engine SERF_SECTRANS_CONNECTED)"
proof -
  let ?c = "example_context idle_engine SERF_SECTRANS_CONNECTED"
  have a: "state ?c = SERF_SECTRANS_CONNECTED"
    by (simp add: scripted_defs)
  have b: "serf_bucket_read scripted_world (pending (encrypt ?c)) 100 = (APR_EAGAIN, [], [])"
    by (simp add: scripted_defs)
  have c: "\<not> SERF_BUCKET_READ_ERROR APR_EAGAIN"
    by (simp add: SERF_BUCKET_READ_ERROR_def)
  have d: "serf_bucket_read scripted_world (stream (encrypt ?c)) 100 = (APR_EAGAIN, [], [])"
    by (simp add: scripted_defs)
  show ?thesis
    using C6_encrypt_read_would_block[OF a b c d, of example_consts]
    by (simp add: scripted_defs)
qed

section \<open>The session state only moves forward\<close>











section \<open>The handshake step\<close>





section \<open>The reference count of the context\<close>

lemma sint_refcount_succ:
  "sint (x :: 32 word) < 2147483647 \<Longrightarrow> sint (x + 1) = sint x + 1"
  using sint_ge[of x] by (simp add: sint_word_ariths signed_take_bit_int_eq_self)

lemma sint_refcount_pred:
  "- 2147483648 < sint (x :: 32 word) \<Longrightarrow> sint (x - 1) = sint x - 1"
  using sint_lt[of x] by (simp add: sint_word_ariths signed_take_bit_int_eq_self)

lemma sectrans_free_context_effects:
  "sectrans_free_context W c =
     (if SSLDisposeContext W (st_ctxr c) \<noteq> noErr then APR_EGENERAL else APR_SUCCESS,
      [ENGINE_HANDLE_DISPOSED (st_ctxr c), CONTEXT_MEMORY_FREED])"
  by (simp add: sectrans_free_context_def Let_def)

lemma refcount_wraps_at_INT_MAX:
  "encrypt_create K W raw es (Some (c\<lparr>refcount := 2147483647\<rparr>)) = Some c1
   \<Longrightarrow> sint (refcount c1) = - 2147483648"
  by (auto simp add: encrypt_create_def Let_def)

text \<open>
  Claim C7. A context that \<open>sectrans_init_context\<close> sets up has reference count 0.
  Creating an encrypt or a decrypt bucket on a context, given or newly set up, adds
  exactly one to the count,
  destroying one subtracts exactly one (in 32-bit arithmetic; as signed numbers
  too, unless the count is at the end of the range of a C \<^verbatim>\<open>int\<close>). The destructor
  runs \<open>sectrans_free_context\<close>, which calls \<^verbatim>\<open>SSLDisposeContext\<close> on the context's
  engine handle and then frees the context's memory, exactly when the count it has
  just decremented is 0; otherwise no call is made and the context stays, with the
  new count. So for two buckets created on a fresh context the count is 2, destroying
  either of them leaves the context alive with count 1, and destroying the other one
  then disposes of it.
\<close>

theorem C7_refcount_lifecycle:
  "(sectrans_init_context K W raw = Some c0 \<longrightarrow> refcount c0 = 0)
   \<and> encrypt_create K W raw es (Some c)
       = Some (c\<lparr>refcount := refcount c + 1, encrypt := (encrypt c)\<lparr>stream := es\<rparr>\<rparr>)
   \<and> decrypt_create K W raw ds (Some c)
       = Some (c\<lparr>refcount := refcount c + 1, decrypt := (decrypt c)\<lparr>stream := ds\<rparr>\<rparr>)
   \<and> (sint (refcount c) < 2147483647 \<longrightarrow>
        sint (refcount c + 1) = sint (refcount c) + 1)
   \<and> (sectrans_init_context K W raw = Some c0 \<longrightarrow>
        encrypt_create K W raw es None
          = Some (c0\<lparr>refcount := 1, encrypt := (encrypt c0)\<lparr>stream := es\<rparr>\<rparr>)
      \<and> decrypt_create K W raw ds None
          = Some (c0\<lparr>refcount := 1, decrypt := (decrypt c0)\<lparr>stream := ds\<rparr>\<rparr>))
   \<and> sectrans_free_context W c
       = (if SSLDisposeContext W (st_ctxr c) \<noteq> noErr then APR_EGENERAL else APR_SUCCESS,
          [ENGINE_HANDLE_DISPOSED (st_ctxr c), CONTEXT_MEMORY_FREED])
   \<and> serf_sectrans_encrypt_destroy_and_data W c
       = (if refcount c - 1 = 0
          then (None, [ENGINE_HANDLE_DISPOSED (st_ctxr c), CONTEXT_MEMORY_FREED])
          else (Some (c\<lparr>refcount := refcount c - 1\<rparr>), []))
   \<and> serf_sectrans_decrypt_destroy_and_data W c
       = (if refcount c - 1 = 0
          then (None, [ENGINE_HANDLE_DISPOSED (st_ctxr c), CONTEXT_MEMORY_FREED])
          else (Some (c\<lparr>refcount := refcount c - 1\<rparr>), []))
   \<and> (- 2147483648 < sint (refcount c) \<longrightarrow>
        sint (refcount c - 1) = sint (refcount c) - 1)
   \<and> (refcount c = 0 \<longrightarrow>
        (\<exists>c2. decrypt_create K W raw ds (encrypt_create K W raw es (Some c)) = Some c2
           \<and> refcount c2 = 2 \<and> st_ctxr c2 = st_ctxr c
           \<and> serf_sectrans_encrypt_destroy_and_data W c2 = (Some (c2\<lparr>refcount := 1\<rparr>), [])
           \<and> serf_sectrans_decrypt_destroy_and_data W c2 = (Some (c2\<lparr>refcount := 1\<rparr>), [])
           \<and> serf_sectrans_decrypt_destroy_and_data W (c2\<lparr>refcount := 1\<rparr>)
               = (None, [ENGINE_HANDLE_DISPOSED (st_ctxr c), CONTEXT_MEMORY_FREED])
           \<and> serf_sectrans_encrypt_destroy_and_data W (c2\<lparr>refcount := 1\<rparr>)
               = (None, [ENGINE_HANDLE_DISPOSED (st_ctxr c), CONTEXT_MEMORY_FREED])))"
  using sectrans_init_context_fields(1)[of K W raw c0]
    sint_refcount_succ[of "refcount c"] sint_refcount_pred[of "refcount c"]
  by (auto simp add: encrypt_create_def decrypt_create_def
      serf_sectrans_encrypt_destroy_and_data_def
      serf_sectrans_decrypt_destroy_and_data_def sectrans_free_context_effects Let_def)


theorem C7_refcount_lifecycle_witness:
  "sectrans_init_context example_consts scripted_world
       (example_context idle_engine SERF_SECTRANS_CLOSING)
     = Some ((example_context idle_engine SERF_SECTRANS_INIT)\<lparr>refcount := 0\<rparr>)
   \<and> refcount ((example_context idle_engine SERF_SECTRANS_INIT)\<lparr>refcount := 0\<rparr>) = 0
   \<and> decrypt_create example_consts scripted_world
        (example_context idle_engine SERF_SECTRANS_CLOSING) [''net'']
        (encrypt_create example_consts scripted_world
           (example_context idle_engine SERF_SECTRANS_CLOSING) [''app'']
           (Some ((example_context idle_engine SERF_SECTRANS_INIT)\<lparr>refcount := 0\<rparr>)))
       = Some ((example_context idle_engine SERF_SECTRANS_INIT)
                \<lparr>encrypt := \<lparr>pending = [], stream = [''app'']\<rparr>,
                 decrypt := \<lparr>pending = [], stream = [''net'']\<rparr>\<rparr>)
   \<and> serf_sectrans_encrypt_destroy_and_data scripted_world
        ((example_context idle_engine SERF_SECTRANS_INIT)
                \<lparr>encrypt := \<lparr>pending = [], stream = [''app'']\<rparr>,
                 decrypt := \<lparr>pending = [], stream = [''net'']\<rparr>\<rparr>)
       = (Some ((example_context idle_engine SERF_SECTRANS_INIT)
                \<lparr>refcount := 1,
                 encrypt := \<lparr>pending = [], stream = [''app'']\<rparr>,
                 decrypt := \<lparr>pending = [], stream = [''net'']\<rparr>\<rparr>), [])
   \<and> serf_sectrans_decrypt_destroy_and_data scripted_world
        ((example_context idle_engine SERF_SECTRANS_INIT)
                \<lparr>refcount := 1,
                 encrypt := \<lparr>pending = [], stream = [''app'']\<rparr>,
                 decrypt := \<lparr>pending = [], stream = [''net'']\<rparr>\<rparr>)
       = (None, [ENGINE_HANDLE_DISPOSED idle_engine, CONTEXT_MEMORY_FREED])
   \<and> sint (refcount (example_context idle_engine SERF_SECTRANS_INIT)) < 2147483647
   \<and> sint (refcount (example_context idle_engine SERF_SECTRANS_INIT) + 1) = 3"
proof -
  have h: "sectrans_init_context example_consts scripted_world
       (example_context idle_engine SERF_SECTRANS_CLOSING)
     = Some ((example_context idle_engine SERF_SECTRANS_INIT)\<lparr>refcount := 0\<rparr>)"
    by (rule sectrans_init_context_example)
  have z: "refcount ((example_context idle_engine SERF_SECTRANS_INIT)\<lparr>refcount := 0\<rparr>) = 0"
    by simp
  have b: "sint (refcount (example_context idle_engine SERF_SECTRANS_INIT)) < 2147483647"
    "- 2147483648 < sint (refcount (example_context idle_engine SERF_SECTRANS_INIT))"
    by (simp_all add: scripted_defs)
  from C7_refcount_lifecycle
    [of example_consts scripted_world "example_context idle_engine SERF_SECTRANS_CLOSING"
      "(example_context idle_engine SERF_SECTRANS_INIT)\<lparr>refcount := 0\<rparr>"
      "[''app'']" "(example_context idle_engine SERF_SECTRANS_INIT)\<lparr>refcount := 0\<rparr>"
      "[''net'']"] h z
  have a: "decrypt_create example_consts scripted_world
        (example_context idle_engine SERF_SECTRANS_CLOSING) [''net'']
        (encrypt_create example_consts scripted_world
           (example_context idle_engine SERF_SECTRANS_CLOSING) [''app'']
           (Some ((example_context idle_engine SERF_SECTRANS_INIT)\<lparr>refcount := 0\<rparr>)))
       = Some ((example_context idle_engine SERF_SECTRANS_INIT)
                \<lparr>encrypt := \<lparr>pending = [], stream = [''app'']\<rparr>,
                 decrypt := \<lparr>pending = [], stream = [''net'']\<rparr>\<rparr>)"
    by (simp add: scripted_defs encrypt_create_def decrypt_create_def Let_def)
  from C7_refcount_lifecycle
    [of example_consts scripted_world "example_context idle_engine SERF_SECTRANS_CLOSING"
      "(example_context idle_engine SERF_SECTRANS_INIT)\<lparr>refcount := 0\<rparr>"
      "[''app'']" "example_context idle_engine SERF_SECTRANS_INIT" "[''net'']"] b
  have c: "sint (refcount (example_context idle_engine SERF_SECTRANS_INIT) + 1) = 3"
    by (simp add: scripted_defs)
  from h z a b c show ?thesis
    by (simp add: scripted_defs serf_sectrans_encrypt_destroy_and_data_def
        serf_sectrans_decrypt_destroy_and_data_def sectrans_free_context_def Let_def)
qed

section \<open>Reads on the decryption bucket\<close>

lemma decrypt_loop_run:
  assumes "\<forall>i<k. fst (decrypt_more_data W ((decrypt_step W ^^ i) c)) = APR_SUCCESS"
    and "fst (decrypt_more_data W ((decrypt_step W ^^ k) c)) \<noteq> APR_SUCCESS"
  shows "decrypt_loop W c = Some (decrypt_more_data W ((decrypt_step W ^^ k) c))"
  using assms
proof (induction k arbitrary: c)
  case 0
  then show ?case by (subst decrypt_loop.simps) (simp add: Let_def)
next
  case (Suc k)
  have s0: "fst (decrypt_more_data W c) = APR_SUCCESS"
    using Suc.prems(1)[rule_format, of 0] by simp
  have a: "\<forall>i<k. fst (decrypt_more_data W ((decrypt_step W ^^ i) (decrypt_step W c)))
             = APR_SUCCESS"
  proof (intro allI impI)
    fix i assume "i < k"
    then have "fst (decrypt_more_data W ((decrypt_step W ^^ Suc i) c)) = APR_SUCCESS"
      using Suc.prems(1) by (meson Suc_less_eq)
    then show "fst (decrypt_more_data W ((decrypt_step W ^^ i) (decrypt_step W c)))
                 = APR_SUCCESS"
      by (simp add: funpow_swap1)
  qed
  have b: "fst (decrypt_more_data W ((decrypt_step W ^^ k) (decrypt_step W c)))
             \<noteq> APR_SUCCESS"
    using Suc.prems(2) by (simp add: funpow_swap1)
  have "decrypt_loop W c = decrypt_loop W (decrypt_step W c)"
    using s0
    by (subst decrypt_loop.simps)
      (simp add: Let_def SERF_BUCKET_READ_ERROR_def decrypt_step_def)
  also have "\<dots> = Some (decrypt_more_data W ((decrypt_step W ^^ k) (decrypt_step W c)))"
    using Suc.IH[OF a b] .
  finally show ?case by (simp add: funpow_swap1)
qed

lemma decrypt_loop_returns:
  assumes "decrypt_loop W c = Some r"
  shows "\<exists>k. (\<forall>i<k. fst (decrypt_more_data W ((decrypt_step W ^^ i) c)) = APR_SUCCESS)
        \<and> fst (decrypt_more_data W ((decrypt_step W ^^ k) c)) \<noteq> APR_SUCCESS
        \<and> r = decrypt_more_data W ((decrypt_step W ^^ k) c)"
proof (rule decrypt_loop.raw_induct[where P = "\<lambda>W c r.
        \<exists>k. (\<forall>i<k. fst (decrypt_more_data W ((decrypt_step W ^^ i) c)) = APR_SUCCESS)
        \<and> fst (decrypt_more_data W ((decrypt_step W ^^ k) c)) \<noteq> APR_SUCCESS
        \<and> r = decrypt_more_data W ((decrypt_step W ^^ k) c)", OF _ assms])
  fix f :: "('a, 'b) collaborators \<Rightarrow> ('a, 'b) sectrans_context
            \<Rightarrow> (apr_status \<times> ('a, 'b) sectrans_context) option"
  fix W c r
  assume IH: "\<And>W c r. f W c = Some r \<Longrightarrow>
        \<exists>k. (\<forall>i<k. fst (decrypt_more_data W ((decrypt_step W ^^ i) c)) = APR_SUCCESS)
        \<and> fst (decrypt_more_data W ((decrypt_step W ^^ k) c)) \<noteq> APR_SUCCESS
        \<and> r = decrypt_more_data W ((decrypt_step W ^^ k) c)"
  assume body: "(let r = decrypt_more_data W c
      in if SERF_BUCKET_READ_ERROR (fst r) then Some r
         else if fst r = APR_SUCCESS then f W (snd r) else Some r) = Some r"
  show "\<exists>k. (\<forall>i<k. fst (decrypt_more_data W ((decrypt_step W ^^ i) c)) = APR_SUCCESS)
        \<and> fst (decrypt_more_data W ((decrypt_step W ^^ k) c)) \<noteq> APR_SUCCESS
        \<and> r = decrypt_more_data W ((decrypt_step W ^^ k) c)"
  proof (cases "fst (decrypt_more_data W c) = APR_SUCCESS")
    case False
    then have "r = decrypt_more_data W c"
      using body by (simp add: Let_def split: if_splits)
    with False show ?thesis by (intro exI[of _ 0]) simp
  next
    case True
    then have fr: "f W (decrypt_step W c) = Some r"
      using body by (simp add: Let_def SERF_BUCKET_READ_ERROR_def decrypt_step_def)
    from IH[OF fr] obtain k where k:
      "\<forall>i<k. fst (decrypt_more_data W ((decrypt_step W ^^ i) (decrypt_step W c)))
         = APR_SUCCESS"
      "fst (decrypt_more_data W ((decrypt_step W ^^ k) (decrypt_step W c))) \<noteq> APR_SUCCESS"
      "r = decrypt_more_data W ((decrypt_step W ^^ k) (decrypt_step W c))" by blast
    have "\<forall>i<Suc k. fst (decrypt_more_data W ((decrypt_step W ^^ i) c)) = APR_SUCCESS"
    proof (intro allI impI)
      fix i assume i: "i < Suc k"
      show "fst (decrypt_more_data W ((decrypt_step W ^^ i) c)) = APR_SUCCESS"
      proof (cases i)
        case 0 then show ?thesis using True by simp
      next
        case (Suc j)
        then have "j < k" using i by simp
        then have "fst (decrypt_more_data W ((decrypt_step W ^^ j) (decrypt_step W c)))
                     = APR_SUCCESS"
          using k(1) by blast
        then show ?thesis unfolding Suc by (simp add: funpow_swap1)
      qed
    qed
    moreover have "fst (decrypt_more_data W ((decrypt_step W ^^ Suc k) c)) \<noteq> APR_SUCCESS"
      using k(2) by (simp add: funpow_swap1)
    moreover have "r = decrypt_more_data W ((decrypt_step W ^^ Suc k) c)"
      using k(3) by (simp add: funpow_swap1)
    ultimately show ?thesis by blast
  qed
qed

lemma decrypt_read_pending_nonempty:
  assumes "serf_bucket_read W (pending (decrypt ctx)) requested = (st, data, p')"
    and "data \<noteq> []"
  shows "serf_sectrans_decrypt_read W ctx requested
           = Some (st, Some data, set_decrypt_pending ctx p')"
    and "serf_sectrans_decrypt_read (W\<lparr>SSLRead := rd\<rparr>) ctx requested
           = Some (st, Some data, set_decrypt_pending ctx p')"
  using assms by (simp_all add: serf_sectrans_decrypt_read_def Let_def)

lemma decrypt_read_pending_empty:
  assumes rd: "serf_bucket_read W (pending (decrypt ctx)) requested = (st, [], p')"
    and ok: "\<not> SERF_BUCKET_READ_ERROR st"
    and run: "\<forall>i<k. fst (decrypt_more_data W
                 ((decrypt_step W ^^ i) (set_decrypt_pending ctx p'))) = APR_SUCCESS"
    and last: "decrypt_more_data W ((decrypt_step W ^^ k) (set_decrypt_pending ctx p'))
                 = (s, cl)"
    and stop: "s \<noteq> APR_SUCCESS"
  shows "serf_sectrans_decrypt_read W ctx requested =
           Some (if SERF_BUCKET_READ_ERROR s then (s, Some [], cl)
                 else (let r2 = serf_bucket_read W (pending (decrypt cl)) requested
                       in (fst r2, Some (fst (snd r2)),
                           set_decrypt_pending cl (snd (snd r2)))))"
proof -
  have "decrypt_loop W (set_decrypt_pending ctx p') = Some (s, cl)"
    using decrypt_loop_run[of k W "set_decrypt_pending ctx p'"] run last stop by simp
  then show ?thesis
    using rd ok by (simp add: serf_sectrans_decrypt_read_def Let_def)
qed

lemma decrypt_read_returns:
  assumes rd: "serf_bucket_read W (pending (decrypt ctx)) requested = (st, [], p')"
    and ok: "\<not> SERF_BUCKET_READ_ERROR st"
    and res: "serf_sectrans_decrypt_read W ctx requested = Some res"
  shows "\<exists>k. (\<forall>i<k. fst (decrypt_more_data W
                 ((decrypt_step W ^^ i) (set_decrypt_pending ctx p'))) = APR_SUCCESS)
           \<and> fst (decrypt_more_data W
                 ((decrypt_step W ^^ k) (set_decrypt_pending ctx p'))) \<noteq> APR_SUCCESS"
proof -
  obtain l where "decrypt_loop W (set_decrypt_pending ctx p') = Some l"
    using rd ok res
    by (auto simp add: serf_sectrans_decrypt_read_def Let_def split: option.splits)
  from decrypt_loop_returns[OF this] show ?thesis by blast
qed

text \<open>
  Claim C3. A read on the decryption bucket first reads the pending plaintext bucket.
  When that hands out at least one byte, the read returns its status and bytes at
  once, and the engine's read operation plays no part in the result. When it hands
  out nothing (and no read error), \<open>decrypt_more_data\<close> is called once and then again
  for as long as the call before returned success: if the first \<open>k\<close> calls return
  success and the next one returns another status \<open>s\<close>, the calls stop there; a read
  error \<open>s\<close> is the result of the read, and otherwise the result is what a second read
  of the pending plaintext bucket gives. The read returns only if the calls do reach
  a status other than success.
\<close>

theorem C3_decrypt_read:
  "(serf_bucket_read W (pending (decrypt ctx)) requested = (st, data, p') \<and> data \<noteq> [] \<longrightarrow>
      serf_sectrans_decrypt_read W ctx requested
        = Some (st, Some data, set_decrypt_pending ctx p')
      \<and> serf_sectrans_decrypt_read (W\<lparr>SSLRead := rd\<rparr>) ctx requested
        = Some (st, Some data, set_decrypt_pending ctx p'))
   \<and> (serf_bucket_read W (pending (decrypt ctx)) requested = (st, [], p')
      \<and> \<not> SERF_BUCKET_READ_ERROR st
      \<and> (\<forall>i<k. fst (decrypt_more_data W
                 ((decrypt_step W ^^ i) (set_decrypt_pending ctx p'))) = APR_SUCCESS)
      \<and> decrypt_more_data W ((decrypt_step W ^^ k) (set_decrypt_pending ctx p')) = (s, cl)
      \<and> s \<noteq> APR_SUCCESS \<longrightarrow>
      serf_sectrans_decrypt_read W ctx requested =
        Some (if SERF_BUCKET_READ_ERROR s then (s, Some [], cl)
              else (let r2 = serf_bucket_read W (pending (decrypt cl)) requested
                    in (fst r2, Some (fst (snd r2)),
                        set_decrypt_pending cl (snd (snd r2))))))
   \<and> (serf_bucket_read W (pending (decrypt ctx)) requested = (st, [], p')
      \<and> \<not> SERF_BUCKET_READ_ERROR st
      \<and> serf_sectrans_decrypt_read W ctx requested = Some res \<longrightarrow>
      (\<exists>j. (\<forall>i<j. fst (decrypt_more_data W
                 ((decrypt_step W ^^ i) (set_decrypt_pending ctx p'))) = APR_SUCCESS)
          \<and> fst (decrypt_more_data W
                 ((decrypt_step W ^^ j) (set_decrypt_pending ctx p'))) \<noteq> APR_SUCCESS))"
proof (intro conjI impI)
  assume "serf_bucket_read W (pending (decrypt ctx)) requested = (st, data, p') \<and> data \<noteq> []"
  then show "serf_sectrans_decrypt_read W ctx requested
               = Some (st, Some data, set_decrypt_pending ctx p')"
    by (simp add: decrypt_read_pending_nonempty(1))
next
  assume "serf_bucket_read W (pending (decrypt ctx)) requested = (st, data, p') \<and> data \<noteq> []"
  then show "serf_sectrans_decrypt_read (W\<lparr>SSLRead := rd\<rparr>) ctx requested
               = Some (st, Some data, set_decrypt_pending ctx p')"
    by (simp add: decrypt_read_pending_nonempty(2))
next
  assume "serf_bucket_read W (pending (decrypt ctx)) requested = (st, [], p')
      \<and> \<not> SERF_BUCKET_READ_ERROR st
      \<and> (\<forall>i<k. fst (decrypt_more_data W
                 ((decrypt_step W ^^ i) (set_decrypt_pending ctx p'))) = APR_SUCCESS)
      \<and> decrypt_more_data W ((decrypt_step W ^^ k) (set_decrypt_pending ctx p')) = (s, cl)
      \<and> s \<noteq> APR_SUCCESS"
  then show "serf_sectrans_decrypt_read W ctx requested =
        Some (if SERF_BUCKET_READ_ERROR s then (s, Some [], cl)
              else (let r2 = serf_bucket_read W (pending (decrypt cl)) requested
                    in (fst r2, Some (fst (snd r2)),
                        set_decrypt_pending cl (snd (snd r2)))))"
    using decrypt_read_pending_empty[of W ctx requested st p' k s cl] by blast
next
  assume "serf_bucket_read W (pending (decrypt ctx)) requested = (st, [], p')
      \<and> \<not> SERF_BUCKET_READ_ERROR st
      \<and> serf_sectrans_decrypt_read W ctx requested = Some res"
  then show "\<exists>j. (\<forall>i<j. fst (decrypt_more_data W
                 ((decrypt_step W ^^ i) (set_decrypt_pending ctx p'))) = APR_SUCCESS)
          \<and> fst (decrypt_more_data W
                 ((decrypt_step W ^^ j) (set_decrypt_pending ctx p'))) \<noteq> APR_SUCCESS"
    using decrypt_read_returns[of W ctx requested st p' res] by blast
qed

theorem C3_decrypt_read_witness:
  "serf_sectrans_decrypt_read scripted_world
       (example_context reading_engine SERF_SECTRANS_CONNECTED) 100
     = Some (APR_SUCCESS, Some ''abc'',
             set_decrypt_pending (example_context idle_engine SERF_SECTRANS_CONNECTED)
               [''de''])
   \<and> serf_sectrans_decrypt_read scripted_world
       (set_decrypt_pending (example_context reading_engine SERF_SECTRANS_CONNECTED)
          [''plain'']) 100
     = Some (APR_EAGAIN, Some ''plain'',
             example_context reading_engine SERF_SECTRANS_CONNECTED)"
proof -
  let ?c = "example_context reading_engine SERF_SECTRANS_CONNECTED"
  let ?c1 = "set_decrypt_pending
      (example_context (reading_engine\<lparr>read_script := [(errSSLWouldBlock, ''de'')]\<rparr>)
         SERF_SECTRANS_CONNECTED) [''abc'']"
  let ?c2 = "set_decrypt_pending (example_context idle_engine SERF_SECTRANS_CONNECTED)
      [''abc'', ''de'']"
  have rd: "serf_bucket_read scripted_world (pending (decrypt ?c)) 100 = (APR_EAGAIN, [], [])"
    by (simp add: scripted_defs)
  have ok: "\<not> SERF_BUCKET_READ_ERROR APR_EAGAIN"
    by (simp add: SERF_BUCKET_READ_ERROR_def)
  have c0: "set_decrypt_pending ?c [] = ?c"
    by (simp add: scripted_defs)
  have m1: "decrypt_more_data scripted_world ?c = (APR_SUCCESS, ?c1)"
    by (simp add: decrypt_more_data_def reading_engine_def scripted_defs
        SERF_BUCKET_READ_ERROR_def Let_def)
  have m2: "decrypt_more_data scripted_world ?c1 = (APR_EAGAIN, ?c2)"
    by (simp add: decrypt_more_data_def reading_engine_def scripted_defs
        SERF_BUCKET_READ_ERROR_def Let_def)
  have run: "\<forall>i<Suc 0. fst (decrypt_more_data scripted_world
               ((decrypt_step scripted_world ^^ i) (set_decrypt_pending ?c []))) = APR_SUCCESS"
    using m1 c0 by simp
  have last: "decrypt_more_data scripted_world
               ((decrypt_step scripted_world ^^ Suc 0) (set_decrypt_pending ?c []))
             = (APR_EAGAIN, ?c2)"
    using m1 m2 c0 by (simp add: decrypt_step_def)
  have stop: "APR_EAGAIN \<noteq> APR_SUCCESS" by simp
  have p: "serf_bucket_read scripted_world
             (pending (decrypt (set_decrypt_pending ?c [''plain'']))) 100
           = (APR_EAGAIN, ''plain'', [])"
    by (simp add: scripted_defs)
  have ne: "''plain'' \<noteq> []" by simp
  from C3_decrypt_read
    [of scripted_world ?c 100 APR_EAGAIN "[]" "[]" scripted_read "Suc 0" APR_EAGAIN ?c2]
    rd ok run last stop
  have a: "serf_sectrans_decrypt_read scripted_world ?c 100
     = Some (APR_SUCCESS, Some ''abc'',
             set_decrypt_pending (example_context idle_engine SERF_SECTRANS_CONNECTED)
               [''de''])"
    by (simp add: scripted_defs SERF_BUCKET_READ_ERROR_def Let_def)
  from C3_decrypt_read
    [of scripted_world "set_decrypt_pending ?c [''plain'']" 100 APR_EAGAIN "''plain''" "[]"]
    p ne
  have b: "serf_sectrans_decrypt_read scripted_world
       (set_decrypt_pending ?c [''plain'']) 100
     = Some (APR_EAGAIN, Some ''plain'', ?c)"
    by (simp add: scripted_defs)
  from a b show ?thesis by simp
qed

section \<open>The read callback\<close>

lemma sectrans_read_cb_loop_exit:
  "st \<noteq> APR_SUCCESS \<or> n = 0 \<Longrightarrow> \<not> SERF_BUCKET_READ_ERROR st \<Longrightarrow>
   sectrans_read_cb_loop W src st n copied = Some (Inr (read_cb_status st, copied, src))"
  by (subst sectrans_read_cb_loop.simps) (auto simp add: read_cb_status_def)

lemma sectrans_read_cb_loop_script:
  assumes "source_answers W src n (map (Pair APR_SUCCESS) bufs @ [(st, buf)]) src'"
    and "length (concat bufs) < n"
    and "st \<noteq> APR_SUCCESS \<or> length (concat bufs) + length buf = n"
    and "\<not> SERF_BUCKET_READ_ERROR st \<longrightarrow> length (concat bufs) + length buf \<le> n"
  shows "sectrans_read_cb_loop W src APR_SUCCESS n copied =
           Some (Inr (read_cb_status st,
                      copied @ concat bufs @ (if SERF_BUCKET_READ_ERROR st then [] else buf),
                      src'))"
  using assms
proof (induction bufs arbitrary: src n copied)
  case Nil
  have rd: "serf_bucket_read W src n = (st, buf, src')"
    using Nil.prems(1) by (simp add: prod_eq_iff)
  have n: "n \<noteq> 0" using Nil.prems(2) by simp
  show ?case
  proof (cases "SERF_BUCKET_READ_ERROR st")
    case True
    then show ?thesis using rd n
      by (subst sectrans_read_cb_loop.simps) (simp add: read_cb_status_def Let_def)
  next
    case False
    have le: "length buf \<le> n" using Nil.prems(4) False by simp
    have ex: "st \<noteq> APR_SUCCESS \<or> n - length buf = 0" using Nil.prems(3) by auto
    have ex2: "buf = [] \<longrightarrow> st \<noteq> APR_SUCCESS" using Nil.prems(3) n by auto
    show ?thesis
    proof (cases "buf = []")
      case True
      then show ?thesis
        using rd n False ex2 sectrans_read_cb_loop_exit[of st n W src' copied]
        by (subst sectrans_read_cb_loop.simps) (simp add: Let_def)
    next
      case nonempty: False
      then show ?thesis
        using rd n False le ex
          sectrans_read_cb_loop_exit[of st "n - length buf" W src' "copied @ buf"]
        by (subst sectrans_read_cb_loop.simps) (simp add: Let_def)
    qed
  qed
next
  case (Cons b bufs)
  let ?r = "serf_bucket_read W src n"
  have rd: "fst ?r = APR_SUCCESS" "fst (snd ?r) = b"
    and rest: "source_answers W (snd (snd ?r)) (n - length b)
                 (map (Pair APR_SUCCESS) bufs @ [(st, buf)]) src'"
    using Cons.prems(1) by simp_all
  have lt: "length (concat bufs) < n - length b" using Cons.prems(2) by simp
  have le: "length b \<le> n" "n \<noteq> 0" using Cons.prems(2) by simp_all
  have p3: "st \<noteq> APR_SUCCESS \<or> length (concat bufs) + length buf = n - length b"
    using Cons.prems(3) by auto
  have p4: "\<not> SERF_BUCKET_READ_ERROR st
              \<longrightarrow> length (concat bufs) + length buf \<le> n - length b"
    using Cons.prems(4) by auto
  have IH: "sectrans_read_cb_loop W (snd (snd ?r)) APR_SUCCESS (n - length b) (copied @ b) =
           Some (Inr (read_cb_status st,
                      (copied @ b) @ concat bufs
                        @ (if SERF_BUCKET_READ_ERROR st then [] else buf), src'))"
    using Cons.IH[OF rest lt p3 p4] .
  show ?case
  proof (cases "b = []")
    case True
    then show ?thesis using rd le IH
      by (subst sectrans_read_cb_loop.simps) (simp add: Let_def SERF_BUCKET_READ_ERROR_def)
  next
    case False
    then show ?thesis using rd le IH
      by (subst sectrans_read_cb_loop.simps) (simp add: Let_def SERF_BUCKET_READ_ERROR_def)
  qed
qed

lemma sectrans_read_cb_zero: "sectrans_read_cb W ctx 0 = Some (Inr (noErr, [], ctx))"
  by (simp add: sectrans_read_cb_def sectrans_read_cb_loop.simps[of W _ APR_SUCCESS 0])

lemma script_ok_cons:
  assumes "fst (serf_bucket_read W src n) = APR_SUCCESS"
    and "length (fst (snd (serf_bucket_read W src n))) \<le> n"
    and "script_ok W (snd (snd (serf_bucket_read W src n)))
           (n - length (fst (snd (serf_bucket_read W src n)))) src' bufs st buf"
  shows "script_ok W src n src' (fst (snd (serf_bucket_read W src n)) # bufs) st buf"
  using assms by (auto simp add: script_ok_def)

lemma script_ok_last:
  assumes "n \<noteq> 0"
    and "fst (serf_bucket_read W src n) \<noteq> APR_SUCCESS
         \<or> length (fst (snd (serf_bucket_read W src n))) = n"
    and "\<not> SERF_BUCKET_READ_ERROR (fst (serf_bucket_read W src n))
         \<longrightarrow> length (fst (snd (serf_bucket_read W src n))) \<le> n"
  shows "script_ok W src n (snd (snd (serf_bucket_read W src n))) []
           (fst (serf_bucket_read W src n)) (fst (snd (serf_bucket_read W src n)))"
  using assms by (auto simp add: script_ok_def)

lemma sectrans_read_cb_loop_returns:
  assumes "sectrans_read_cb_loop W src status n copied = Some res"
  shows "(status \<noteq> APR_SUCCESS \<or> n = 0 \<longrightarrow> res = Inr (read_cb_status status, copied, src))
       \<and> (status = APR_SUCCESS \<and> n \<noteq> 0 \<longrightarrow>
            (\<forall>os out src'. res = Inr (os, out, src') \<longrightarrow>
               (\<exists>bufs st buf. script_ok W src n src' bufs st buf)))"
proof (rule sectrans_read_cb_loop.raw_induct[where P = "\<lambda>W src status n copied res.
         (status \<noteq> APR_SUCCESS \<or> n = 0 \<longrightarrow> res = Inr (read_cb_status status, copied, src))
       \<and> (status = APR_SUCCESS \<and> n \<noteq> 0 \<longrightarrow>
            (\<forall>os out src'. res = Inr (os, out, src') \<longrightarrow>
               (\<exists>bufs st buf. script_ok W src n src' bufs st buf)))", OF _ assms],
    goal_cases)
  case (1 f W src status n copied res)
  note IH = 1(1) and body = 1(2)
  show ?case
  proof (cases "status = APR_SUCCESS \<and> n \<noteq> 0")
    case False
    then show ?thesis using body
      by (auto simp add: read_cb_status_def SERF_BUCKET_READ_ERROR_def split: if_splits)
  next
    case True
    let ?r = "serf_bucket_read W src n"
    let ?st = "fst ?r" and ?buf = "fst (snd ?r)" and ?src = "snd (snd ?r)"
    have "\<exists>bufs st buf. script_ok W src n src' bufs st buf"
      if res: "res = Inr (os, out, src')" for os out src'
    proof (cases "SERF_BUCKET_READ_ERROR ?st")
      case err: True
      then have "src' = ?src" using body True res by (simp add: Let_def)
      moreover have "script_ok W src n ?src [] ?st ?buf"
        using True err by (intro script_ok_last) (auto simp add: SERF_BUCKET_READ_ERROR_def)
      ultimately show ?thesis by blast
    next
      case ok: False
      have le: "length ?buf \<le> n"
        using body True ok res by (auto simp add: Let_def split: if_splits)
      have rec: "f W ?src ?st (n - length ?buf) (copied @ ?buf) = Some res"
        using body True ok res by (auto simp add: Let_def split: if_splits)
      note ih = IH[OF rec]
      show ?thesis
      proof (cases "?st \<noteq> APR_SUCCESS \<or> n - length ?buf = 0")
        case stop: True
        then have "src' = ?src" using ih res by simp
        moreover have "script_ok W src n ?src [] ?st ?buf"
          using True ok le stop by (intro script_ok_last) auto
        ultimately show ?thesis by blast
      next
        case go: False
        then obtain bufs st buf
          where "script_ok W ?src (n - length ?buf) src' bufs st buf"
          using ih res by blast
        then have "script_ok W src n src' (?buf # bufs) st buf"
          using go le by (intro script_ok_cons) simp_all
        then show ?thesis by blast
      qed
    qed
    then show ?thesis using True by blast
  qed
qed


lemma sectrans_read_cb_returns:
  assumes "sectrans_read_cb W ctx N = Some (Inr (os, out, ctx'))" and "0 < N"
  shows "\<exists>bufs st buf. script_ok W (stream (decrypt ctx)) N (stream (decrypt ctx')) bufs st buf"
proof -
  obtain src' where l: "sectrans_read_cb_loop W (stream (decrypt ctx)) APR_SUCCESS N []
                          = Some (Inr (os, out, src'))"
    and c: "ctx' = ctx\<lparr>decrypt := (decrypt ctx)\<lparr>stream := src'\<rparr>\<rparr>"
  proof -
    obtain z where z: "sectrans_read_cb_loop W (stream (decrypt ctx)) APR_SUCCESS N [] = Some z"
      and m: "map_sum id (\<lambda>(st, copied, src).
                (st, copied, ctx\<lparr>decrypt := (decrypt ctx)\<lparr>stream := src\<rparr>\<rparr>)) z
              = Inr (os, out, ctx')"
      using assms(1) by (auto simp add: sectrans_read_cb_def)
    show ?thesis
    proof (cases z)
      case (Inl x)
      then show ?thesis using m by simp
    next
      case (Inr t)
      obtain a aa b where t: "t = (a, aa, b)" by (cases t)
      show ?thesis using that[of b] z m Inr t by simp
    qed
  qed
  from sectrans_read_cb_loop_returns[OF l] assms(2) c show ?thesis by simp
qed

text \<open>
  Claim C4. Called for 0 bytes, the read callback reads nothing and reports success.
  Called for \<open>N > 0\<close> bytes, it reads the incoming ciphertext source again and again,
  each time for the bytes still missing. Suppose the source first answers success with
  the chunks \<open>bufs\<close>, fewer than \<open>N\<close> bytes in all, and then answers \<open>st\<close> with the
  chunk \<open>buf\<close>, where either \<open>st\<close> is not success or \<open>buf\<close> completes the \<open>N\<close> bytes
  (and the source never hands out more than was asked for). Then the callback returns
  after exactly these reads. On a read error \<open>st\<close> it reports the failure \<open>-1\<close> with
  the bytes of \<open>bufs\<close> copied; otherwise it has copied the chunks one after the other,
  \<open>buf\<close> last, their total number being the new length, and reports would-block for
  would-block (so also when nothing was copied), success for success, when all \<open>N\<close>
  bytes are there, and \<open>-1\<close> for any other status. Every call for \<open>N > 0\<close> bytes
  that returns a status is such a run of reads.
\<close>

theorem C4_sectrans_read_cb:
  "sectrans_read_cb W ctx 0 = Some (Inr (noErr, [], ctx))
   \<and> (source_answers W (stream (decrypt ctx)) N (map (Pair APR_SUCCESS) bufs @ [(st, buf)]) src'
      \<and> length (concat bufs) < N
      \<and> (st \<noteq> APR_SUCCESS \<or> length (concat bufs) + length buf = N)
      \<and> (\<not> SERF_BUCKET_READ_ERROR st \<longrightarrow> length (concat bufs) + length buf \<le> N)
      \<longrightarrow>
      sectrans_read_cb W ctx N =
        Some (Inr (if SERF_BUCKET_READ_ERROR st then OSStatus_other (- 1)
                   else if st = APR_EAGAIN then errSSLWouldBlock
                   else if st = APR_SUCCESS then noErr
                   else OSStatus_other (- 1),
                   concat bufs @ (if SERF_BUCKET_READ_ERROR st then [] else buf),
                   ctx\<lparr>decrypt := (decrypt ctx)\<lparr>stream := src'\<rparr>\<rparr>)))
   \<and> (sectrans_read_cb W ctx N = Some (Inr (os, out, ctx')) \<and> 0 < N \<longrightarrow>
        (\<exists>bs s b.
           source_answers W (stream (decrypt ctx)) N (map (Pair APR_SUCCESS) bs @ [(s, b)])
             (stream (decrypt ctx'))
           \<and> length (concat bs) < N
           \<and> (s \<noteq> APR_SUCCESS \<or> length (concat bs) + length b = N)
           \<and> (\<not> SERF_BUCKET_READ_ERROR s \<longrightarrow> length (concat bs) + length b \<le> N)))"
proof (intro conjI impI)
  show "sectrans_read_cb W ctx 0 = Some (Inr (noErr, [], ctx))"
    by (rule sectrans_read_cb_zero)
next
  assume a: "source_answers W (stream (decrypt ctx)) N
               (map (Pair APR_SUCCESS) bufs @ [(st, buf)]) src'
      \<and> length (concat bufs) < N
      \<and> (st \<noteq> APR_SUCCESS \<or> length (concat bufs) + length buf = N)
      \<and> (\<not> SERF_BUCKET_READ_ERROR st \<longrightarrow> length (concat bufs) + length buf \<le> N)"
  have "sectrans_read_cb_loop W (stream (decrypt ctx)) APR_SUCCESS N [] =
           Some (Inr (read_cb_status st,
                      [] @ concat bufs @ (if SERF_BUCKET_READ_ERROR st then [] else buf),
                      src'))"
    using a by (intro sectrans_read_cb_loop_script) simp_all
  then show "sectrans_read_cb W ctx N =
        Some (Inr (if SERF_BUCKET_READ_ERROR st then OSStatus_other (- 1)
                   else if st = APR_EAGAIN then errSSLWouldBlock
                   else if st = APR_SUCCESS then noErr
                   else OSStatus_other (- 1),
                   concat bufs @ (if SERF_BUCKET_READ_ERROR st then [] else buf),
                   ctx\<lparr>decrypt := (decrypt ctx)\<lparr>stream := src'\<rparr>\<rparr>))"
    by (simp add: sectrans_read_cb_def read_cb_status_def)
next
  assume "sectrans_read_cb W ctx N = Some (Inr (os, out, ctx')) \<and> 0 < N"
  then show "\<exists>bs s b.
           source_answers W (stream (decrypt ctx)) N (map (Pair APR_SUCCESS) bs @ [(s, b)])
             (stream (decrypt ctx'))
           \<and> length (concat bs) < N
           \<and> (s \<noteq> APR_SUCCESS \<or> length (concat bs) + length b = N)
           \<and> (\<not> SERF_BUCKET_READ_ERROR s \<longrightarrow> length (concat bs) + length b \<le> N)"
    using sectrans_read_cb_returns[of W ctx N os out ctx'] by (simp add: script_ok_def)
qed

theorem C4_sectrans_read_cb_witness:
  "sectrans_read_cb scripted_world
       ((example_context idle_engine SERF_SECTRANS_CONNECTED)
          \<lparr>decrypt := \<lparr>pending = [], stream = [''ab'', ''cde'', ''fgh'']\<rparr>\<rparr>) 4
     = Some (Inr (noErr, ''abcd'',
          (example_context idle_engine SERF_SECTRANS_CONNECTED)
            \<lparr>decrypt := \<lparr>pending = [], stream = [''e'', ''fgh'']\<rparr>\<rparr>))
   \<and> sectrans_read_cb scripted_world
       ((example_context idle_engine SERF_SECTRANS_CONNECTED)
          \<lparr>decrypt := \<lparr>pending = [], stream = [''ab'']\<rparr>\<rparr>) 4
     = Some (Inr (errSSLWouldBlock, ''ab'',
          example_context idle_engine SERF_SECTRANS_CONNECTED))
   \<and> sectrans_read_cb scripted_world
       (example_context idle_engine SERF_SECTRANS_CONNECTED) 4
     = Some (Inr (errSSLWouldBlock, [],
          example_context idle_engine SERF_SECTRANS_CONNECTED))"
proof -
  let ?c = "example_context idle_engine SERF_SECTRANS_CONNECTED"
  have a: "source_answers scripted_world
             (stream (decrypt (?c\<lparr>decrypt := \<lparr>pending = [], stream = [''ab'', ''cde'', ''fgh'']\<rparr>\<rparr>)))
             4 (map (Pair APR_SUCCESS) [''ab''] @ [(APR_SUCCESS, ''cd'')]) [''e'', ''fgh'']"
    by (simp add: scripted_defs)
  have b: "source_answers scripted_world
             (stream (decrypt (?c\<lparr>decrypt := \<lparr>pending = [], stream = [''ab'']\<rparr>\<rparr>)))
             4 (map (Pair APR_SUCCESS) [] @ [(APR_EAGAIN, ''ab'')]) []"
    by (simp add: scripted_defs)
  have c: "source_answers scripted_world (stream (decrypt ?c))
             4 (map (Pair APR_SUCCESS) [] @ [(APR_EAGAIN, [])]) []"
    by (simp add: scripted_defs)
  from C4_sectrans_read_cb
    [of scripted_world "?c\<lparr>decrypt := \<lparr>pending = [], stream = [''ab'', ''cde'', ''fgh'']\<rparr>\<rparr>"
      4 "[''ab'']" APR_SUCCESS "''cd''" "[''e'', ''fgh'']"] a
  have r1: "sectrans_read_cb scripted_world
       (?c\<lparr>decrypt := \<lparr>pending = [], stream = [''ab'', ''cde'', ''fgh'']\<rparr>\<rparr>) 4
     = Some (Inr (noErr, ''abcd'', ?c\<lparr>decrypt := \<lparr>pending = [], stream = [''e'', ''fgh'']\<rparr>\<rparr>))"
    by (simp add: SERF_BUCKET_READ_ERROR_def scripted_defs)
  from C4_sectrans_read_cb
    [of scripted_world "?c\<lparr>decrypt := \<lparr>pending = [], stream = [''ab'']\<rparr>\<rparr>"
      4 "[]" APR_EAGAIN "''ab''" "[]"] b
  have r2: "sectrans_read_cb scripted_world
       (?c\<lparr>decrypt := \<lparr>pending = [], stream = [''ab'']\<rparr>\<rparr>) 4
     = Some (Inr (errSSLWouldBlock, ''ab'', ?c))"
    by (simp add: SERF_BUCKET_READ_ERROR_def scripted_defs)
  from C4_sectrans_read_cb [of scripted_world ?c 4 "[]" APR_EAGAIN "[]" "[]"] c
  have r3: "sectrans_read_cb scripted_world ?c 4 = Some (Inr (errSSLWouldBlock, [], ?c))"
    by (simp add: SERF_BUCKET_READ_ERROR_def scripted_defs)
  from r1 r2 r3 show ?thesis by simp
qed

end
